theory Spec2Isabelle
  imports Main
begin

section \<open>Python values used by the dashboard\<close>

text \<open>
  A Python \<open>str\<close> is a sequence of Unicode code points: \<open>len\<close>, slicing and \<open>in\<close>
  count code points, not bytes. It is modelled as a list of code points.
\<close>

type_synonym pystr = "nat list"

text \<open>An ASCII literal of the source, written as an Isabelle string.\<close>

definition ascii :: "string \<Rightarrow> pystr" where
  "ascii s = map of_char s"

text \<open>\<open>sub in s\<close> on two strings: \<open>sub\<close> occurs in \<open>s\<close> as a contiguous run.\<close>

fun starts_with :: "pystr \<Rightarrow> pystr \<Rightarrow> bool" where
  "starts_with [] s = True"
| "starts_with (c # cs) [] = False"
| "starts_with (c # cs) (d # ds) = (c = d \<and> starts_with cs ds)"

fun py_in :: "pystr \<Rightarrow> pystr \<Rightarrow> bool" where
  "py_in sub [] = (sub = [])"
| "py_in sub (c # cs) = (starts_with sub (c # cs) \<or> py_in sub cs)"

text \<open>
  \<open>str.isspace\<close> of one code point: the 29 code points Python 3 treats as whitespace,
  which are the ones \<open>str.strip()\<close> removes.
\<close>

definition py_isspace :: "nat \<Rightarrow> bool" where
  "py_isspace c =
     ((9 \<le> c \<and> c \<le> 13) \<or> (28 \<le> c \<and> c \<le> 32) \<or> c = 133 \<or> c = 160 \<or> c = 5760
      \<or> (8192 \<le> c \<and> c \<le> 8202) \<or> c = 8232 \<or> c = 8233 \<or> c = 8239 \<or> c = 8287
      \<or> c = 12288)"

definition py_strip :: "pystr \<Rightarrow> pystr" where
  "py_strip s = rev (dropWhile py_isspace (rev (dropWhile py_isspace s)))"

text \<open>Truthiness of a string: \<open>not s\<close> holds exactly for the empty string.\<close>

definition str_truthy :: "pystr \<Rightarrow> bool" where
  "str_truthy s = (s \<noteq> [])"

text \<open>\<open>str.lower\<close> of an ASCII code point: the letters A to Z move to a to z.\<close>

definition lower_char :: "nat \<Rightarrow> nat" where
  "lower_char c = (if 65 \<le> c \<and> c \<le> 90 then c + 32 else c)"

definition is_ascii :: "pystr \<Rightarrow> bool" where
  "is_ascii s = list_all (\<lambda>c. c < 128) s"

text \<open>\<open>str(n)\<close> of an integer: its decimal digits, with a minus sign when negative.\<close>

fun digits_of :: "nat \<Rightarrow> pystr" where
  "digits_of n = (if n < 10 then [48 + n] else digits_of (n div 10) @ [48 + n mod 10])"

declare digits_of.simps [simp del]

definition str_int :: "int \<Rightarrow> pystr" where
  "str_int n = (if n < 0 then 45 # digits_of (nat (- n)) else digits_of (nat n))"

text \<open>
  An exception caught by \<open>except Exception as e\<close>; the payload is \<open>str(e)\<close>, the only
  thing the source reads from it.
\<close>

datatype exn = Exception (str_exn: pystr)

text \<open>
  The values a collaborator puts into a dictionary. A Python \<open>float\<close> is left
  uninterpreted; a dictionary inside a value has string keys.
\<close>

typedecl pyfloat

datatype pyval =
    PNone
  | PBool bool
  | PInt int
  | PFloat pyfloat
  | PStr pystr
  | PList "pyval list"
  | PDict "(pystr \<times> pyval) list"

text \<open>
  What belongs to the interpreter and the libraries is a parameter of the model: how
  floats print and whether they are zero, how lists and dictionaries print, the Unicode
  case mapping of \<open>str.lower\<close> on text that is not ASCII, the message texts of the
  exceptions that Python and Streamlit raise themselves, and the clock.
\<close>

record pylib =
  float_str :: "pyfloat \<Rightarrow> pystr"  \<comment> \<open>\<open>str(x)\<close>\<close>
  float_2f :: "pyfloat \<Rightarrow> pystr"  \<comment> \<open>\<open>format(x, ".2f")\<close>\<close>
  float_truthy :: "pyfloat \<Rightarrow> bool"  \<comment> \<open>\<open>bool(x)\<close>\<close>
  bigint_2f :: "int \<Rightarrow> exn + pystr"  \<comment> \<open>\<open>format(n, ".2f")\<close> beyond \<open>2 ^ 53\<close>\<close>
  container_str :: "pyval \<Rightarrow> pystr"  \<comment> \<open>\<open>str(v)\<close> of a list or dictionary\<close>
  unicode_lower :: "pystr \<Rightarrow> pystr"  \<comment> \<open>\<open>s.lower()\<close> on text that is not ASCII\<close>
  format_none_error :: pystr  \<comment> \<open>TypeError of \<open>format(None, ".2f")\<close>\<close>
  format_str_error :: pystr  \<comment> \<open>ValueError of \<open>format(s, ".2f")\<close> on a string\<close>
  format_container_error :: "pyval \<Rightarrow> pystr"
    \<comment> \<open>TypeError of \<open>format(v, ".2f")\<close> on a list or dictionary\<close>
  len_error :: "pyval \<Rightarrow> pystr"  \<comment> \<open>TypeError of \<open>len(v)\<close> on a value without length\<close>
  slice_error :: "pyval \<Rightarrow> pystr"  \<comment> \<open>the exception of \<open>v[:8]\<close> on a value without slices\<close>
  progress_error :: "int \<Rightarrow> pystr"  \<comment> \<open>\<open>st.progress\<close> outside \<open>[0.0, 1.0]\<close>\<close>
  attribute_error :: "string \<Rightarrow> pystr"  \<comment> \<open>missing \<open>st.session_state\<close> attribute\<close>
  date_days_back :: "nat \<Rightarrow> pystr"
    \<comment> \<open>\<open>(datetime.now() - timedelta(days=n)).strftime("%Y-%m-%d")\<close>\<close>

text \<open>\<open>s.lower()\<close>: on ASCII text the letters are moved one by one.\<close>

definition py_lower :: "pylib \<Rightarrow> pystr \<Rightarrow> pystr" where
  "py_lower L s = (if is_ascii s then map lower_char s else unicode_lower L s)"

text \<open>\<open>str(v)\<close>, which is what an f-string field \<open>{v}\<close> prints.\<close>

fun py_str :: "pylib \<Rightarrow> pyval \<Rightarrow> pystr" where
  "py_str L PNone = ascii ''None''"
| "py_str L (PBool b) = (if b then ascii ''True'' else ascii ''False'')"
| "py_str L (PInt n) = str_int n"
| "py_str L (PFloat x) = float_str L x"
| "py_str L (PStr s) = s"
| "py_str L (PList xs) = container_str L (PList xs)"
| "py_str L (PDict d) = container_str L (PDict d)"

text \<open>
  The f-string field \<open>{v:.2f}\<close>. \<open>None\<close>, strings, lists and dictionaries do not
  support the format code and raise. An integer (and a Boolean, which is one) is converted
  to a float first, which is exact up to \<open>2 ^ 53\<close>, and then printed with two decimals.
\<close>

fun format_2f :: "pylib \<Rightarrow> pyval \<Rightarrow> exn + pystr" where
  "format_2f L PNone = Inl (Exception (format_none_error L))"
| "format_2f L (PBool b) = Inr (if b then ascii ''1.00'' else ascii ''0.00'')"
| "format_2f L (PInt n) =
     (if \<bar>n\<bar> \<le> 2 ^ 53 then Inr (str_int n @ ascii ''.00'') else bigint_2f L n)"
| "format_2f L (PFloat x) = Inr (float_2f L x)"
| "format_2f L (PStr s) = Inl (Exception (format_str_error L))"
| "format_2f L (PList xs) = Inl (Exception (format_container_error L (PList xs)))"
| "format_2f L (PDict d) = Inl (Exception (format_container_error L (PDict d)))"

text \<open>Truthiness of a value, \<open>len(v)\<close> and the slice \<open>v[:8]\<close>.\<close>

fun py_truthy :: "pylib \<Rightarrow> pyval \<Rightarrow> bool" where
  "py_truthy L PNone = False"
| "py_truthy L (PBool b) = b"
| "py_truthy L (PInt n) = (n \<noteq> 0)"
| "py_truthy L (PFloat x) = float_truthy L x"
| "py_truthy L (PStr s) = (s \<noteq> [])"
| "py_truthy L (PList xs) = (xs \<noteq> [])"
| "py_truthy L (PDict d) = (d \<noteq> [])"

fun py_len :: "pylib \<Rightarrow> pyval \<Rightarrow> exn + nat" where
  "py_len L (PStr s) = Inr (length s)"
| "py_len L (PList xs) = Inr (length xs)"
| "py_len L (PDict d) = Inr (length (remdups (map fst d)))"
| "py_len L v = Inl (Exception (len_error L v))"

fun py_slice8 :: "pylib \<Rightarrow> pyval \<Rightarrow> exn + pyval" where
  "py_slice8 L (PStr s) = Inr (PStr (take 8 s))"
| "py_slice8 L (PList xs) = Inr (PList (take 8 xs))"
| "py_slice8 L v = Inl (Exception (slice_error L v))"

text \<open>
  A dictionary with string keys, and \<open>d.get(k, default)\<close>. \<open>k in d\<close> is
  \<open>map_of d k \<noteq> None\<close>.
\<close>

type_synonym 'v pydict = "(pystr \<times> 'v) list"

definition dict_get :: "'v pydict \<Rightarrow> pystr \<Rightarrow> 'v \<Rightarrow> 'v" where
  "dict_get d k dflt = (case map_of d k of None \<Rightarrow> dflt | Some v \<Rightarrow> v)"

text \<open>The dictionary without a key.\<close>

definition dict_del :: "pystr \<Rightarrow> 'v pydict \<Rightarrow> 'v pydict" where
  "dict_del k d = filter (\<lambda>kv. fst kv \<noteq> k) d"

section \<open>Collaborator contracts\<close>

datatype report_type = Detailed | Simple

record analysis_args =
  arg_stock_code :: pystr
  arg_report_type :: report_type
  arg_force_refresh :: bool
  arg_query_id :: pystr
  arg_send_notification :: bool

text \<open>
  The analysis result. Every key of the dictionary is optional (\<open>None\<close> is an absent
  key); the report is a dictionary of optional parts or anything else, shown as markdown.
\<close>

record structured_report =
  summary :: "pystr option"
  operation_advice :: "pystr option"
  sentiment_score :: "int option"
  trend_prediction :: "pystr option"
  full_report :: "pystr option"

datatype report = Structured structured_report | RawText pystr

record analysis_result =
  res_stock_name :: "pystr option"
  res_stock_code :: "pystr option"
  res_report :: "report option"

text \<open>
  A service call raises (\<open>Inl\<close>) or returns; a returned \<open>None\<close> stands for every falsy
  result (\<open>None\<close> or an empty dictionary).
\<close>

type_synonym analysis_service = "analysis_args \<Rightarrow> exn + analysis_result option"

record history_args =
  h_stock_code :: "pystr option"
  h_start_date :: pystr
  h_page :: nat
  h_limit :: nat

record history_meta =
  meta_stock_code :: "pystr option"
  meta_stock_name :: "pystr option"
  meta_created_at :: "pystr option"
  meta_operation_advice :: "pystr option"
  meta_sentiment_score :: "int option"

record history_item =
  item_meta :: "history_meta option"
  item_report :: "pystr option"

record history_page =
  page_total :: "int option"
  page_items :: "history_item list option"

type_synonym history_service = "history_args \<Rightarrow> exn + history_page option"

text \<open>
  A quote is a dictionary whose values may be \<open>None\<close>, so a field is absent, null or
  set. The daily history is a sequence of rows with a date and a closing price.
\<close>

type_synonym quote = "pyval pydict"

record kline =
  kline_data :: "(pystr \<times> pyval) list option"

record stock_service =
  get_realtime_quote :: "pystr \<Rightarrow> exn + quote option"
  get_history_data :: "pystr \<Rightarrow> pystr \<Rightarrow> nat \<Rightarrow> exn + kline option"

record task =
  task_stock_code :: "pystr option"
  task_created_at :: "pystr option"
  task_status :: "pystr option"

text \<open>
  \<open>get_task_queue()\<close> raises or returns the queue, whose \<open>list_tasks(limit)\<close> raises
  or returns the tasks. The members of \<open>TaskStatusEnum\<close> are declared outside this
  file and are parameters.
\<close>

type_synonym task_queue = "nat \<Rightarrow> exn + task list"

record task_status_enum =
  RUNNING :: pystr
  COMPLETED :: pystr
  FAILED :: pystr

text \<open>
  The configuration service returns a dictionary that may hold the key \<open>config\<close>, a
  mapping from configuration key to value.
\<close>

record config_data =
  cd_config :: "pyval pydict option"

type_synonym system_config_service = "bool \<Rightarrow> exn + config_data option"

section \<open>Session state\<close>

text \<open>
  \<open>st.session_state\<close>: each attribute is absent (\<open>None\<close>) until the script sets it.
  The class \<open>Config\<close> of the object returned by \<open>get_config()\<close> is declared outside
  this file; the object is a snapshot of the configuration mapping.
\<close>

datatype config_obj = Config "pyval pydict"

record session_state =
  initialized :: "bool option"
  config :: "config_obj option"
  analysis_service :: "analysis_service option"
  history_service :: "history_service option"
  stock_service :: "stock_service option"
  system_config_service :: "system_config_service option"

section \<open>What a render cycle shows\<close>

text \<open>
  One constructor per Streamlit call of the source, holding the argument passed.
  \<open>Success\<close>, \<open>Error\<close>, \<open>Warning\<close> and \<open>Info\<close> are the four status boxes
  (\<open>st.success\<close>, \<open>st.error\<close>, \<open>st.warning\<close>, \<open>st.info\<close>). \<open>Expander\<close> holds what
  is rendered inside its \<open>with\<close> block, \<open>Sidebar\<close> a call on \<open>st.sidebar\<close>. Input
  widgets are not listed: their values are the arguments of the views.
\<close>

datatype cell = CStr pystr | CInt int

datatype widget =
    Title pystr
  | Markdown pystr
  | Subheader pystr
  | Caption pystr
  | Text pystr
  | Success pystr
  | Error pystr
  | Warning pystr
  | Info pystr
  | Spinner pystr
  | Progress int  \<comment> \<open>\<open>st.progress(score / 100)\<close>, holding \<open>score\<close>\<close>
  | Metric pystr pystr "pystr option"  \<comment> \<open>label, value, delta\<close>
  | Dataframe "pystr list" "cell list list"  \<comment> \<open>column names and rows\<close>
  | Selectbox pystr "pystr list"  \<comment> \<open>label and the formatted options\<close>
  | LineChart "(pystr \<times> pyval) list"
  | TextInput pystr pyval  \<comment> \<open>a disabled text input: label and value\<close>
  | Expander pystr "widget list"
  | Sidebar widget

datatype marker = MSuccess | MError | MWarning | MInfo

fun marker_of :: "widget \<Rightarrow> marker option" where
  "marker_of (Success t) = Some MSuccess"
| "marker_of (Error t) = Some MError"
| "marker_of (Warning t) = Some MWarning"
| "marker_of (Info t) = Some MInfo"
| "marker_of w = None"

text \<open>The labels of the text inputs a widget shows, inside containers too.\<close>

fun input_keys :: "widget \<Rightarrow> pystr list" where
  "input_keys (TextInput key v) = [key]"
| "input_keys (Expander label ws) = concat (map input_keys ws)"
| "input_keys (Sidebar w) = input_keys w"
| "input_keys w = []"

text \<open>The collaborator operations a render cycle invokes, with their arguments.\<close>

datatype call =
    AnalyzeStock analysis_args
  | GetHistoryList history_args
  | GetRealtimeQuote pystr
  | GetHistoryData pystr pystr nat
  | GetTaskQueue
  | ListTasks nat
  | GetConfig bool
  | NewConfig  \<comment> \<open>\<open>get_config()\<close>\<close>
  | NewAnalysisService
  | NewHistoryService
  | NewStockService
  | NewSystemConfigService

text \<open>
  The state a script run works on: the session, and what the run has rendered, called
  and logged so far.
\<close>

record app =
  session :: session_state
  rendered :: "widget list"
  calls :: "call list"
  logged :: "pystr list"

text \<open>
  A statement runs on the state and either completes (\<open>None\<close>) or stops with a signal:
  an exception, or the rerun request of \<open>st.rerun()\<close>, which is not an \<open>Exception\<close>
  and passes through \<open>except Exception\<close>.
\<close>

datatype signal = Raised exn | RerunRequested

type_synonym stmt = "app \<Rightarrow> signal option \<times> app"

definition skip :: stmt where
  "skip a = (None, a)"

definition emit :: "widget \<Rightarrow> stmt" where
  "emit w a = (None, a\<lparr>rendered := rendered a @ [w]\<rparr>)"

definition invoke :: "call \<Rightarrow> stmt" where
  "invoke c a = (None, a\<lparr>calls := calls a @ [c]\<rparr>)"

definition log_exception :: "pystr \<Rightarrow> stmt" where
  "log_exception m a = (None, a\<lparr>logged := logged a @ [m]\<rparr>)"

definition raise :: "exn \<Rightarrow> stmt" where
  "raise e a = (Some (Raised e), a)"

text \<open>Reading \<open>st.session_state\<close>.\<close>

definition with_session :: "(session_state \<Rightarrow> stmt) \<Rightarrow> stmt" where
  "with_session f a = f (session a) a"

text \<open>\<open>st.rerun()\<close>.\<close>

definition st_rerun :: stmt where
  "st_rerun a = (Some RerunRequested, a)"

definition seq :: "stmt \<Rightarrow> stmt \<Rightarrow> stmt" where
  "seq s t a = (case s a of (None, a') \<Rightarrow> t a' | (Some sig, a') \<Rightarrow> (Some sig, a'))"

fun block :: "stmt list \<Rightarrow> stmt" where
  "block [] = skip"
| "block (s # ss) = seq s (block ss)"

text \<open>\<open>try: body except Exception as e: handler(e)\<close>.\<close>

definition try_except :: "stmt \<Rightarrow> (exn \<Rightarrow> stmt) \<Rightarrow> stmt" where
  "try_except body handler a =
     (case body a of
        (Some (Raised e), a') \<Rightarrow> handler e a'
      | (r, a') \<Rightarrow> (r, a'))"

text \<open>\<open>if key in d: body(d[key])\<close> on an optional part.\<close>

definition if_present :: "'a option \<Rightarrow> ('a \<Rightarrow> stmt) \<Rightarrow> stmt" where
  "if_present x body = (case x of None \<Rightarrow> skip | Some v \<Rightarrow> body v)"

text \<open>\<open>d.get(key, "N/A")\<close> on an optional string.\<close>

definition or_na :: "pystr option \<Rightarrow> pystr" where
  "or_na x = (case x of None \<Rightarrow> ascii ''N/A'' | Some v \<Rightarrow> v)"

section \<open>Advice classification (show_analysis_page, the operation_advice branch)\<close>

text \<open>The buy token is U+4E70 U+5165 (mai ru), the sell token U+5356 U+51FA (mai chu).\<close>

definition buy_token :: pystr where
  "buy_token = [20080, 20837]"

definition sell_token :: pystr where
  "sell_token = [21334, 20986]"

text \<open>The f-string \<open>f"**{advice}**"\<close>.\<close>

definition bold :: "pystr \<Rightarrow> pystr" where
  "bold t = ascii ''**'' @ t @ ascii ''**''"

text \<open>
  \<open>if "buy" in advice: st.success(...) elif "sell" in advice: st.error(...)
  else: st.warning(...)\<close>
\<close>

definition show_advice :: "pystr \<Rightarrow> widget" where
  "show_advice advice =
     (if py_in buy_token advice then Success (bold advice)
      else if py_in sell_token advice then Error (bold advice)
      else Warning (bold advice))"

text \<open>
  The specification's wording of the classifier: \<open>Buy\<close> if the text contains the buy
  token, \<open>Sell\<close> if it contains the sell token, else \<open>Neutral\<close>, the buy check first.
\<close>

datatype advice_class = Buy | Sell | Neutral

definition contains :: "pystr \<Rightarrow> pystr \<Rightarrow> bool" where
  "contains s tok = (\<exists>pre post. s = pre @ tok @ post)"

definition classifyAdvice_spec :: "pystr \<Rightarrow> advice_class" where
  "classifyAdvice_spec t =
     (if contains t buy_token then Buy else if contains t sell_token then Sell else Neutral)"

text \<open>How the view frames each class: success, error and warning box.\<close>

fun class_marker :: "advice_class \<Rightarrow> marker" where
  "class_marker Buy = MSuccess"
| "class_marker Sell = MError"
| "class_marker Neutral = MWarning"

section \<open>The Analysis view (show_analysis_page)\<close>

text \<open>The texts of the page; the Chinese literals are given by their code points.\<close>

definition analysis_title :: pystr where
  "analysis_title = [128202, 32, 32929, 31080, 20998, 26512]"

definition analysis_intro :: pystr where
  "analysis_intro = [35302, 21457, 32, 65, 73, 32, 26234, 33021, 20998, 26512, 65292,
     33719, 21462, 32929, 31080, 20915, 31574, 24314, 35758]"

text \<open>"Please enter a stock code".\<close>

definition msg_enter_code :: pystr where
  "msg_enter_code = [35831, 36755, 20837, 32929, 31080, 20195, 30721]"

text \<open>"Analysing " ... "...".\<close>

definition spinner_analysing :: "pystr \<Rightarrow> pystr" where
  "spinner_analysing code = [27491, 22312, 20998, 26512, 32] @ code @ ascii ''...''"

text \<open>"Analysis complete!".\<close>

definition msg_analysis_done :: pystr where
  "msg_analysis_done = [20998, 26512, 23436, 25104, 65281]"

definition result_heading :: "pystr \<Rightarrow> pystr \<Rightarrow> pystr" where
  "result_heading name code = [128200, 32] @ name @ ascii '' ('' @ code @ ascii '')''"

definition hdr_summary :: pystr where
  "hdr_summary = [35, 35, 35, 32, 128203, 32, 20998, 26512, 25688, 35201]"

definition hdr_advice :: pystr where
  "hdr_advice = [35, 35, 35, 32, 128161, 32, 25805, 20316, 24314, 35758]"

definition hdr_sentiment :: pystr where
  "hdr_sentiment = [35, 35, 35, 32, 128202, 32, 24773, 32490, 35780, 20998]"

definition caption_score :: "int \<Rightarrow> pystr" where
  "caption_score score = [35780, 20998, 58, 32] @ str_int score @ ascii ''/100''"

definition hdr_trend :: pystr where
  "hdr_trend = [35, 35, 35, 32, 128302, 32, 36235, 21183, 39044, 27979]"

definition hdr_full_report :: pystr where
  "hdr_full_report = [35, 35, 35, 32, 128196, 32, 23436, 25972, 25253, 21578]"

definition caption_query_id :: "pystr \<Rightarrow> pystr" where
  "caption_query_id qid = [26597, 35810, 32, 73, 68, 58, 32] @ qid"

text \<open>"Analysis failed, please check that the stock code is right or see the log".\<close>

definition msg_analysis_failed :: pystr where
  "msg_analysis_failed = [20998, 26512, 22833, 36133, 65292, 35831, 26816, 26597, 32929,
     31080, 20195, 30721, 26159, 21542, 27491, 30830, 25110, 26597, 30475, 26085, 24535]"

text \<open>"An error occurred during the analysis: " followed by \<open>str(e)\<close>.\<close>

definition msg_analysis_error :: "exn \<Rightarrow> pystr" where
  "msg_analysis_error e =
     [20998, 26512, 36807, 31243, 20013, 21457, 29983, 38169, 35823, 58, 32] @ str_exn e"

text \<open>
  \<open>st.progress(score / 100)\<close>: Streamlit accepts a float in \<open>[0.0, 1.0]\<close> and raises
  otherwise.
\<close>

definition st_progress :: "pylib \<Rightarrow> int \<Rightarrow> stmt" where
  "st_progress L score =
     (if 0 \<le> score \<and> score \<le> 100 then emit (Progress score)
      else raise (Exception (progress_error L score)))"

text \<open>The branch \<open>isinstance(report, dict)\<close>: each part is shown if its key is present.\<close>

definition show_structured_report :: "pylib \<Rightarrow> structured_report \<Rightarrow> stmt" where
  "show_structured_report L r = block [
     if_present (summary r) (\<lambda>s. block [emit (Markdown hdr_summary), emit (Info s)]),
     if_present (operation_advice r)
       (\<lambda>advice. block [emit (Markdown hdr_advice), emit (show_advice advice)]),
     if_present (sentiment_score r)
       (\<lambda>score. block [emit (Markdown hdr_sentiment), st_progress L score,
                       emit (Caption (caption_score score))]),
     if_present (trend_prediction r) (\<lambda>t. block [emit (Markdown hdr_trend), emit (Info t)]),
     if_present (full_report r)
       (\<lambda>t. block [emit (Markdown hdr_full_report), emit (Markdown t)])]"

text \<open>The branches \<open>if result:\<close> and \<open>else:\<close> after the call.\<close>

definition show_analysis_result :: "pylib \<Rightarrow> pystr \<Rightarrow> analysis_result option \<Rightarrow> stmt" where
  "show_analysis_result L query_id result =
     (case result of
        Some r \<Rightarrow> block [
          emit (Success msg_analysis_done),
          emit (Markdown (ascii ''---'')),
          emit (Subheader (result_heading (or_na (res_stock_name r)) (or_na (res_stock_code r)))),
          if_present (res_report r)
            (\<lambda>report. case report of
                Structured sr \<Rightarrow> show_structured_report L sr
              | RawText t \<Rightarrow> emit (Markdown t)),
          emit (Caption (caption_query_id query_id))]
      | None \<Rightarrow> emit (Error msg_analysis_failed))"

text \<open>
  The body of the \<open>try\<close>. \<open>query_id\<close> is the value \<open>uuid.uuid4().hex\<close> produced in
  this run.
\<close>

definition analysis_try ::
  "pylib \<Rightarrow> pystr \<Rightarrow> pystr \<Rightarrow> report_type \<Rightarrow> bool \<Rightarrow> bool \<Rightarrow> stmt" where
  "analysis_try L query_id stock_code rtype force_refresh send_notification =
     with_session (\<lambda>s. case analysis_service s of
        None \<Rightarrow> raise (Exception (attribute_error L ''analysis_service''))
      | Some svc \<Rightarrow>
          (let args = \<lparr>arg_stock_code = py_strip stock_code, arg_report_type = rtype,
                       arg_force_refresh = force_refresh, arg_query_id = query_id,
                       arg_send_notification = send_notification\<rparr>
           in case svc args of
                Inl e \<Rightarrow> seq (invoke (AnalyzeStock args)) (raise e)
              | Inr result \<Rightarrow>
                  seq (invoke (AnalyzeStock args)) (show_analysis_result L query_id result)))"

text \<open>
  The page. \<open>clicked\<close> is the value of \<open>st.button\<close>; the other arguments are the values
  of the text input, the select box and the two check boxes.
\<close>

definition show_analysis_page ::
  "pylib \<Rightarrow> pystr \<Rightarrow> pystr \<Rightarrow> report_type \<Rightarrow> bool \<Rightarrow> bool \<Rightarrow> bool \<Rightarrow> stmt" where
  "show_analysis_page L query_id stock_code rtype force_refresh send_notification clicked =
     block [
       emit (Title analysis_title),
       emit (Markdown analysis_intro),
       if clicked then
         (if \<not> str_truthy stock_code then emit (Error msg_enter_code)
          else block [
            emit (Spinner (spinner_analysing stock_code)),
            try_except
              (analysis_try L query_id stock_code rtype force_refresh send_notification)
              (\<lambda>e. block [emit (Error (msg_analysis_error e)),
                          log_exception (ascii ''Analysis error'')])])
       else skip]"

section \<open>The History view (show_history_page)\<close>

definition history_title :: pystr where
  "history_title = [128218, 32, 21382, 21490, 35760, 24405]"

definition history_intro :: pystr where
  "history_intro = [26597, 30475, 21382, 21490, 20998, 26512, 35760, 24405]"

definition spinner_history :: pystr where
  "spinner_history = [27491, 22312, 21152, 36733, 21382, 21490, 35760, 24405, 46, 46, 46]"

text \<open>"Found " total " records".\<close>

definition msg_found :: "int \<Rightarrow> pystr" where
  "msg_found n = [25214, 21040, 32] @ str_int n @ [32, 26465, 35760, 24405]"

text \<open>The column names: stock code, stock name, analysis time, advice, sentiment score.\<close>

definition history_columns :: "pystr list" where
  "history_columns = [[32929, 31080, 20195, 30721], [32929, 31080, 21517, 31216],
     [20998, 26512, 26102, 38388], [25805, 20316, 24314, 35758],
     [24773, 32490, 35780, 20998]]"

definition hdr_detail :: pystr where
  "hdr_detail = [128196, 32, 26597, 30475, 35814, 32454, 25253, 21578]"

definition lbl_select_record :: pystr where
  "lbl_select_record = [36873, 25321, 35760, 24405]"

text \<open>"No history records yet".\<close>

definition msg_no_history :: pystr where
  "msg_no_history = [26242, 26080, 21382, 21490, 35760, 24405]"

text \<open>"Query failed: " followed by \<open>str(e)\<close>.\<close>

definition msg_query_failed :: "exn \<Rightarrow> pystr" where
  "msg_query_failed e = [26597, 35810, 22833, 36133, 58, 32] @ str_exn e"

text \<open>\<open>stock_code_filter.strip() if stock_code_filter else None\<close>.\<close>

definition history_filter :: "pystr \<Rightarrow> pystr option" where
  "history_filter stock_code_filter =
     (if str_truthy stock_code_filter then Some (py_strip stock_code_filter) else None)"

text \<open>The request of the view: the filter, the start date, \<open>page=1\<close> and the page size.\<close>

definition history_query :: "pylib \<Rightarrow> pystr \<Rightarrow> nat \<Rightarrow> nat \<Rightarrow> history_args" where
  "history_query L stock_code_filter days_back page_size =
     \<lparr>h_stock_code = history_filter stock_code_filter,
      h_start_date = date_days_back L days_back, h_page = 1, h_limit = page_size\<rparr>"

text \<open>One row of the table; \<open>meta = item.get("meta", {})\<close>, each cell \<open>meta.get(k, "N/A")\<close>.\<close>

definition history_row :: "history_item \<Rightarrow> cell list" where
  "history_row item =
     (case item_meta item of
        None \<Rightarrow> replicate 5 (CStr (ascii ''N/A''))
      | Some meta \<Rightarrow>
          [CStr (or_na (meta_stock_code meta)), CStr (or_na (meta_stock_name meta)),
           CStr (or_na (meta_created_at meta)), CStr (or_na (meta_operation_advice meta)),
           (case meta_sentiment_score meta of None \<Rightarrow> CStr (ascii ''N/A'') | Some n \<Rightarrow> CInt n)])"

text \<open>
  The labels of the select box. \<open>format_func\<close> reads \<open>item["meta"]\<close> without a
  default, so an item without \<open>meta\<close> raises \<open>KeyError("meta")\<close>, whose text is the
  quoted key.
\<close>

fun format_options :: "history_item list \<Rightarrow> exn + pystr list" where
  "format_options [] = Inr []"
| "format_options (item # rest) =
     (case item_meta item of
        None \<Rightarrow> Inl (Exception ([39] @ ascii ''meta'' @ [39]))
      | Some meta \<Rightarrow>
          (case format_options rest of
             Inl e \<Rightarrow> Inl e
           | Inr labels \<Rightarrow>
               Inr ((or_na (meta_stock_name meta) @ ascii '' - '' @ or_na (meta_created_at meta))
                    # labels)))"

text \<open>
  The branch for a non-empty page. \<open>selected\<close> is the index the user chose in the
  select box, which offers the indices of the items and starts at the first.
\<close>

definition show_history_items :: "history_page \<Rightarrow> history_item list \<Rightarrow> nat \<Rightarrow> stmt" where
  "show_history_items page its selected = block [
     emit (Success (msg_found (case page_total page of None \<Rightarrow> 0 | Some n \<Rightarrow> n))),
     emit (Dataframe history_columns (map history_row its)),
     emit (Markdown (ascii ''---'')),
     emit (Subheader hdr_detail),
     (case format_options its of
        Inl e \<Rightarrow> raise e
      | Inr labels \<Rightarrow> emit (Selectbox lbl_select_record labels)),
     if_present (item_report (its ! (if selected < length its then selected else 0)))
       (\<lambda>report. emit (Markdown report))]"

definition show_history_result :: "history_page option \<Rightarrow> nat \<Rightarrow> stmt" where
  "show_history_result result selected =
     (case result of
        None \<Rightarrow> emit (Info msg_no_history)
      | Some page \<Rightarrow>
          (case page_items page of
             None \<Rightarrow> emit (Info msg_no_history)
           | Some its \<Rightarrow>
               if its \<noteq> [] then show_history_items page its selected
               else emit (Info msg_no_history)))"

definition history_try :: "pylib \<Rightarrow> pystr \<Rightarrow> nat \<Rightarrow> nat \<Rightarrow> nat \<Rightarrow> stmt" where
  "history_try L stock_code_filter days_back page_size selected =
     with_session (\<lambda>s. case history_service s of
        None \<Rightarrow> raise (Exception (attribute_error L ''history_service''))
      | Some svc \<Rightarrow>
          (let args = history_query L stock_code_filter days_back page_size
           in case svc args of
                Inl e \<Rightarrow> seq (invoke (GetHistoryList args)) (raise e)
              | Inr result \<Rightarrow>
                  seq (invoke (GetHistoryList args)) (show_history_result result selected)))"

definition show_history_page :: "pylib \<Rightarrow> pystr \<Rightarrow> nat \<Rightarrow> nat \<Rightarrow> nat \<Rightarrow> bool \<Rightarrow> stmt" where
  "show_history_page L stock_code_filter days_back page_size selected clicked =
     block [
       emit (Title history_title),
       emit (Markdown history_intro),
       if clicked then block [
         emit (Spinner spinner_history),
         try_except
           (history_try L stock_code_filter days_back page_size selected)
           (\<lambda>e. block [emit (Error (msg_query_failed e)),
                       log_exception (ascii ''History query error'')])]
       else skip]"

section \<open>The Quote view (show_stock_quote_page)\<close>

definition quote_title :: pystr where
  "quote_title = [128185, 32, 32929, 31080, 34892, 24773]"

definition quote_intro :: pystr where
  "quote_intro = [26597, 30475, 23454, 26102, 32929, 31080, 34892, 24773, 25968, 25454]"

definition spinner_quote :: "pystr \<Rightarrow> pystr" where
  "spinner_quote code =
     [27491, 22312, 33719, 21462, 32] @ code @ [32, 30340, 34892, 24773, 25968, 25454, 46, 46, 46]"

text \<open>"Quote data fetched".\<close>

definition msg_quote_ok :: pystr where
  "msg_quote_ok = [34892, 24773, 25968, 25454, 33719, 21462, 25104, 21151]"

text \<open>The metric labels: current price, change, today's open, previous close.\<close>

definition lbl_current_price :: pystr where
  "lbl_current_price = [24403, 21069, 20215]"

definition lbl_change :: pystr where
  "lbl_change = [28072, 36300]"

definition lbl_open :: pystr where
  "lbl_open = [20170, 26085, 24320, 30424]"

definition lbl_prev_close :: pystr where
  "lbl_prev_close = [26152, 26085, 25910, 30424]"

text \<open>The bold labels of the lines below: high, low, volume, amount, turnover rate.\<close>

definition lbl_high :: pystr where
  "lbl_high = [42, 42, 26368, 39640, 20215, 42, 42, 58, 32]"

definition lbl_low :: pystr where
  "lbl_low = [42, 42, 26368, 20302, 20215, 42, 42, 58, 32]"

definition lbl_volume :: pystr where
  "lbl_volume = [42, 42, 25104, 20132, 37327, 42, 42, 58, 32]"

definition lbl_amount :: pystr where
  "lbl_amount = [42, 42, 25104, 20132, 39069, 42, 42, 58, 32]"

definition lbl_turnover :: pystr where
  "lbl_turnover = [42, 42, 25442, 25163, 29575, 42, 42, 58, 32]"

text \<open>"Fetching the history data failed: " followed by \<open>str(e)\<close>.\<close>

definition msg_kline_failed :: "exn \<Rightarrow> pystr" where
  "msg_kline_failed e =
     [33719, 21462, 21382, 21490, 25968, 25454, 22833, 36133, 58, 32] @ str_exn e"

text \<open>"Fetching the quote data failed".\<close>

definition msg_quote_failed :: pystr where
  "msg_quote_failed = [33719, 21462, 34892, 24773, 25968, 25454, 22833, 36133]"

text \<open>The f-string field \<open>{quote.get(key, 'N/A')}\<close>.\<close>

definition quote_field :: "pylib \<Rightarrow> quote \<Rightarrow> string \<Rightarrow> pystr" where
  "quote_field L q key = py_str L (dict_get q (ascii key) (PStr (ascii ''N/A'')))"

text \<open>
  \<open>change = quote.get('change', 0); change_pct = quote.get('change_percent', 0);
  st.metric(label, f"{change:.2f}", f"{change_pct:.2f}%")\<close>.
\<close>

definition show_change :: "pylib \<Rightarrow> quote \<Rightarrow> stmt" where
  "show_change L q =
     (case format_2f L (dict_get q (ascii ''change'') (PInt 0)) of
        Inl e \<Rightarrow> raise e
      | Inr change \<Rightarrow>
          (case format_2f L (dict_get q (ascii ''change_percent'') (PInt 0)) of
             Inl e \<Rightarrow> raise e
           | Inr change_pct \<Rightarrow> emit (Metric lbl_change change (Some (change_pct @ ascii ''%'')))))"

text \<open>The metrics and lines of a quote, up to the check box.\<close>

definition show_quote_fields :: "pylib \<Rightarrow> quote \<Rightarrow> stmt" where
  "show_quote_fields L q = block [
     emit (Metric lbl_current_price (quote_field L q ''current_price'') None),
     show_change L q,
     emit (Metric lbl_open (quote_field L q ''open'') None),
     emit (Metric lbl_prev_close (quote_field L q ''prev_close'') None),
     emit (Markdown (ascii ''---'')),
     emit (Markdown (lbl_high @ quote_field L q ''high'')),
     emit (Markdown (lbl_low @ quote_field L q ''low'')),
     emit (Markdown (lbl_volume @ quote_field L q ''volume'')),
     emit (Markdown (lbl_amount @ quote_field L q ''amount'')),
     emit (Markdown (lbl_turnover @ quote_field L q ''turnover_rate''))]"

text \<open>
  The inner \<open>try\<close> under the check box: the daily history of 30 days as a line chart of
  the closing price by date; a failure is shown as a warning.
\<close>

definition kline_try :: "pylib \<Rightarrow> pystr \<Rightarrow> stmt" where
  "kline_try L stock_code =
     with_session (\<lambda>s. case stock_service s of
        None \<Rightarrow> raise (Exception (attribute_error L ''stock_service''))
      | Some svc \<Rightarrow>
          (let c = GetHistoryData (py_strip stock_code) (ascii ''daily'') 30
           in case get_history_data svc (py_strip stock_code) (ascii ''daily'') 30 of
                Inl e \<Rightarrow> seq (invoke c) (raise e)
              | Inr history \<Rightarrow>
                  seq (invoke c)
                    (case history of
                       None \<Rightarrow> skip
                     | Some h \<Rightarrow>
                         (case kline_data h of
                            None \<Rightarrow> skip
                          | Some rows \<Rightarrow> if rows \<noteq> [] then emit (LineChart rows) else skip))))"

definition show_kline :: "pylib \<Rightarrow> pystr \<Rightarrow> stmt" where
  "show_kline L stock_code =
     try_except (kline_try L stock_code) (\<lambda>e. emit (Warning (msg_kline_failed e)))"

definition show_quote_result :: "pylib \<Rightarrow> pystr \<Rightarrow> bool \<Rightarrow> quote option \<Rightarrow> stmt" where
  "show_quote_result L stock_code kline_checked result =
     (case result of
        None \<Rightarrow> emit (Error msg_quote_failed)
      | Some q \<Rightarrow>
          if q \<noteq> [] then block [
            emit (Success msg_quote_ok),
            show_quote_fields L q,
            if kline_checked then show_kline L stock_code else skip]
          else emit (Error msg_quote_failed))"

definition quote_try :: "pylib \<Rightarrow> pystr \<Rightarrow> bool \<Rightarrow> stmt" where
  "quote_try L stock_code kline_checked =
     with_session (\<lambda>s. case stock_service s of
        None \<Rightarrow> raise (Exception (attribute_error L ''stock_service''))
      | Some svc \<Rightarrow>
          (case get_realtime_quote svc (py_strip stock_code) of
             Inl e \<Rightarrow> seq (invoke (GetRealtimeQuote (py_strip stock_code))) (raise e)
           | Inr result \<Rightarrow>
               seq (invoke (GetRealtimeQuote (py_strip stock_code)))
                 (show_quote_result L stock_code kline_checked result)))"

text \<open>
  The page. \<open>clicked\<close> is the value of the button, \<open>kline_checked\<close> the value of the
  check box for the history chart.
\<close>

definition show_stock_quote_page :: "pylib \<Rightarrow> pystr \<Rightarrow> bool \<Rightarrow> bool \<Rightarrow> stmt" where
  "show_stock_quote_page L stock_code kline_checked clicked =
     block [
       emit (Title quote_title),
       emit (Markdown quote_intro),
       if clicked then
         (if \<not> str_truthy stock_code then emit (Error msg_enter_code)
          else block [
            emit (Spinner (spinner_quote stock_code)),
            try_except
              (quote_try L stock_code kline_checked)
              (\<lambda>e. block [emit (Error (msg_query_failed e)),
                          log_exception (ascii ''Stock quote error'')])])
       else skip]"

section \<open>The TaskMonitor view (show_task_monitor_page)\<close>

definition task_title :: pystr where
  "task_title = [9881, 65039, 32, 20219, 21153, 30417, 25511]"

definition task_intro :: pystr where
  "task_intro = [30417, 25511, 20998, 26512, 20219, 21153, 25191, 34892, 29366, 24577]"

text \<open>"There are " n " tasks".\<close>

definition msg_task_count :: "nat \<Rightarrow> pystr" where
  "msg_task_count n = [24403, 21069, 26377, 32] @ str_int (int n) @ [32, 20010, 20219, 21153]"

definition txt_stock :: "pystr \<Rightarrow> pystr" where
  "txt_stock code = [32929, 31080, 58, 32] @ code"

definition txt_created :: "pystr \<Rightarrow> pystr" where
  "txt_created t = [21019, 24314, 26102, 38388, 58, 32] @ t"

text \<open>"running", "completed", "failed", "unknown".\<close>

definition msg_running :: pystr where
  "msg_running = [36816, 34892, 20013]"

definition msg_completed :: pystr where
  "msg_completed = [24050, 23436, 25104]"

definition msg_failed :: pystr where
  "msg_failed = [22833, 36133]"

definition msg_unknown :: pystr where
  "msg_unknown = [26410, 30693]"

text \<open>"There are no tasks at the moment".\<close>

definition msg_no_tasks :: pystr where
  "msg_no_tasks = [24403, 21069, 27809, 26377, 20219, 21153]"

text \<open>"Fetching the task list failed: " followed by \<open>str(e)\<close>.\<close>

definition msg_tasks_failed :: "exn \<Rightarrow> pystr" where
  "msg_tasks_failed e =
     [33719, 21462, 20219, 21153, 21015, 34920, 22833, 36133, 58, 32] @ str_exn e"

text \<open>\<open>task.get("status", "unknown")\<close>.\<close>

definition status_of :: "task \<Rightarrow> pystr" where
  "status_of t = (case task_status t of None \<Rightarrow> ascii ''unknown'' | Some s \<Rightarrow> s)"

text \<open>
  The grouping loop. \<open>status_groups\<close> is a dictionary, which keeps its keys in the
  order of their insertion: an association list in that order. One round of the loop
  adds the status with an empty list if it is new, then appends the task to its list.
\<close>

definition group_step :: "(pystr \<times> task list) list \<Rightarrow> task \<Rightarrow> (pystr \<times> task list) list" where
  "group_step status_groups t =
     (let status = status_of t;
          groups = (if status \<notin> set (map fst status_groups)
                    then status_groups @ [(status, [])] else status_groups)
      in map (\<lambda>(k, ts). if k = status then (k, ts @ [t]) else (k, ts)) groups)"

definition group_tasks :: "task list \<Rightarrow> (pystr \<times> task list) list" where
  "group_tasks tasks = foldl group_step [] tasks"

text \<open>
  The specification's wording of the group order: the distinct values of a sequence in
  the order of their first occurrence.
\<close>

primrec first_seen :: "'a list \<Rightarrow> 'a list" where
  "first_seen [] = []"
| "first_seen (x # xs) = x # filter (\<lambda>y. y \<noteq> x) (first_seen xs)"

text \<open>The three columns of one task inside its expander.\<close>

definition task_row :: "task_status_enum \<Rightarrow> task \<Rightarrow> widget list" where
  "task_row E t =
     [Text (txt_stock (or_na (task_stock_code t))),
      Text (txt_created (or_na (task_created_at t))),
      (if task_status t = Some (RUNNING E) then Warning msg_running
       else if task_status t = Some (COMPLETED E) then Success msg_completed
       else if task_status t = Some (FAILED E) then Error msg_failed
       else Info (case task_status t of None \<Rightarrow> msg_unknown | Some s \<Rightarrow> s))]"

definition group_label :: "pystr \<Rightarrow> task list \<Rightarrow> pystr" where
  "group_label status task_list =
     status @ ascii '' ('' @ str_int (int (length task_list)) @ ascii '')''"

definition show_task_groups :: "task_status_enum \<Rightarrow> task list \<Rightarrow> stmt" where
  "show_task_groups E tasks =
     block (map (\<lambda>(status, task_list).
                   emit (Expander (group_label status task_list)
                           (concat (map (task_row E) task_list))))
              (group_tasks tasks))"

definition show_tasks :: "task_status_enum \<Rightarrow> task list \<Rightarrow> stmt" where
  "show_tasks E tasks =
     (if tasks \<noteq> [] then
        block [emit (Success (msg_task_count (length tasks))), show_task_groups E tasks]
      else emit (Info msg_no_tasks))"

definition task_try :: "task_status_enum \<Rightarrow> exn + task_queue \<Rightarrow> stmt" where
  "task_try E get_task_queue =
     seq (invoke GetTaskQueue)
       (case get_task_queue of
          Inl e \<Rightarrow> raise e
        | Inr task_queue \<Rightarrow>
            seq (invoke (ListTasks 50))
              (case task_queue 50 of
                 Inl e \<Rightarrow> raise e
               | Inr tasks \<Rightarrow> show_tasks E tasks))"

text \<open>
  The page. \<open>refresh\<close> is the value of the refresh button: \<open>st.rerun()\<close> stops the run
  with a rerun request before the task list is read.
\<close>

definition show_task_monitor_page :: "task_status_enum \<Rightarrow> exn + task_queue \<Rightarrow> bool \<Rightarrow> stmt" where
  "show_task_monitor_page E get_task_queue refresh =
     block [
       emit (Title task_title),
       emit (Markdown task_intro),
       if refresh then st_rerun else skip,
       try_except
         (task_try E get_task_queue)
         (\<lambda>e. block [emit (Error (msg_tasks_failed e)),
                     log_exception (ascii ''Task monitor error'')])]"

section \<open>The Config view (show_config_page)\<close>

definition config_title :: pystr where
  "config_title = [9881, 65039, 32, 31995, 32479, 37197, 32622]"

definition config_intro :: pystr where
  "config_intro = [26597, 30475, 21644, 31649, 29702, 31995, 32479, 37197, 32622]"

definition hdr_current_config :: pystr where
  "hdr_current_config = [35, 35, 35, 32, 24403, 21069, 37197, 32622]"

text \<open>
  The section table: AI, notification, data source and stock configuration, each with
  its keys.
\<close>

definition sections :: "(pystr \<times> pystr list) list" where
  "sections =
     [([65, 73, 32, 37197, 32622],
       [ascii ''gemini_api_key'', ascii ''openai_api_key'', ascii ''openai_base_url'',
        ascii ''openai_model'']),
      ([36890, 30693, 37197, 32622],
       [ascii ''wechat_webhook_url'', ascii ''feishu_webhook_url'',
        ascii ''telegram_bot_token'']),
      ([25968, 25454, 28304, 37197, 32622],
       [ascii ''tushare_token'', ascii ''tavily_api_keys'', ascii ''serpapi_keys'']),
      ([32929, 31080, 37197, 32622], [ascii ''stock_list''])]"

text \<open>All keys of the table, in its order.\<close>

definition table_keys :: "pystr list" where
  "table_keys = concat (map snd sections)"

text \<open>"Configuration changes are made in the .env file and need a restart".\<close>

definition msg_config_hint :: pystr where
  "msg_config_hint = [9888, 65039, 32, 37197, 32622, 20462, 25913, 38656, 35201, 22312, 32,
     46, 101, 110, 118, 32, 25991, 20214, 20013, 36827, 34892, 65292, 20462, 25913, 21518,
     38656, 35201, 37325, 21551, 24212, 29992]"

text \<open>"The configuration cannot be loaded".\<close>

definition msg_config_unavailable :: pystr where
  "msg_config_unavailable = [26080, 27861, 21152, 36733, 37197, 32622, 20449, 24687]"

text \<open>"Loading the configuration failed: " followed by \<open>str(e)\<close>.\<close>

definition msg_config_failed :: "exn \<Rightarrow> pystr" where
  "msg_config_failed e = [21152, 36733, 37197, 32622, 22833, 36133, 58, 32] @ str_exn e"

text \<open>
  \<open>"api_key" in key.lower() or "token" in key.lower() or "password" in key.lower()\<close>
\<close>

definition is_sensitive :: "pylib \<Rightarrow> pystr \<Rightarrow> bool" where
  "is_sensitive L key =
     (py_in (ascii ''api_key'') (py_lower L key) \<or> py_in (ascii ''token'') (py_lower L key)
      \<or> py_in (ascii ''password'') (py_lower L key))"



text \<open>
  \<open>f"{value[:8]}..." if value and len(value) > 8 else "***"\<close>: the condition is
  evaluated first, and \<open>len\<close> only for a truthy value.
\<close>

definition mask_value :: "pylib \<Rightarrow> pyval \<Rightarrow> exn + pystr" where
  "mask_value L value =
     (if py_truthy L value then
        (case py_len L value of
           Inl e \<Rightarrow> Inl e
         | Inr n \<Rightarrow>
             if n > 8 then
               (case py_slice8 L value of
                  Inl e \<Rightarrow> Inl e
                | Inr part \<Rightarrow> Inr (py_str L part @ ascii ''...''))
             else Inr (ascii ''***''))
      else Inr (ascii ''***''))"

definition display_value :: "pylib \<Rightarrow> pystr \<Rightarrow> pyval \<Rightarrow> exn + pyval" where
  "display_value L key value =
     (if is_sensitive L key then
        (case mask_value L value of Inl e \<Rightarrow> Inl e | Inr masked \<Rightarrow> Inr (PStr masked))
      else Inr value)"

text \<open>
  The inner loop: one disabled text input per key of the section found in the mapping.
  The result is what the loop has put into the expander and the exception that stopped
  it, if one did.
\<close>

fun section_inputs :: "pylib \<Rightarrow> pyval pydict \<Rightarrow> pystr list \<Rightarrow> widget list \<times> exn option" where
  "section_inputs L config_dict [] = ([], None)"
| "section_inputs L config_dict (key # keys) =
     (case map_of config_dict key of
        None \<Rightarrow> section_inputs L config_dict keys
      | Some value \<Rightarrow>
          (case display_value L key value of
             Inl e \<Rightarrow> ([], Some e)
           | Inr shown \<Rightarrow>
               (case section_inputs L config_dict keys of
                  (ws, r) \<Rightarrow> (TextInput key shown # ws, r))))"

text \<open>One expander; an exception raised inside it leaves what was rendered before.\<close>

definition show_section :: "pylib \<Rightarrow> pyval pydict \<Rightarrow> pystr \<times> pystr list \<Rightarrow> stmt" where
  "show_section L config_dict sec =
     (case section_inputs L config_dict (snd sec) of
        (ws, None) \<Rightarrow> emit (Expander (fst sec) ws)
      | (ws, Some e) \<Rightarrow> seq (emit (Expander (fst sec) ws)) (raise e))"

definition show_sections :: "pylib \<Rightarrow> pyval pydict \<Rightarrow> stmt" where
  "show_sections L config_dict = block (map (show_section L config_dict) sections)"

definition show_config_data :: "pylib \<Rightarrow> config_data option \<Rightarrow> stmt" where
  "show_config_data L config_data =
     (case config_data of
        None \<Rightarrow> emit (Warning msg_config_unavailable)
      | Some d \<Rightarrow>
          (case cd_config d of
             None \<Rightarrow> emit (Warning msg_config_unavailable)
           | Some config_dict \<Rightarrow>
               block [emit (Markdown hdr_current_config), show_sections L config_dict,
                      emit (Info msg_config_hint)]))"

definition config_try :: "pylib \<Rightarrow> stmt" where
  "config_try L =
     with_session (\<lambda>s. case system_config_service s of
        None \<Rightarrow> raise (Exception (attribute_error L ''system_config_service''))
      | Some config_service \<Rightarrow>
          (case config_service True of
             Inl e \<Rightarrow> seq (invoke (GetConfig True)) (raise e)
           | Inr config_data \<Rightarrow>
               seq (invoke (GetConfig True)) (show_config_data L config_data)))"

definition show_config_page :: "pylib \<Rightarrow> stmt" where
  "show_config_page L =
     block [
       emit (Title config_title),
       emit (Markdown config_intro),
       try_except
         (config_try L)
         (\<lambda>e. block [emit (Error (msg_config_failed e)),
                     log_exception (ascii ''Config page error'')])]"

section \<open>The script: session initialisation and routing\<close>

text \<open>
  What one run of the script finds outside itself: the interpreter and library, the
  identifier \<open>uuid.uuid4().hex\<close> of this run, the outcome of each of the five
  constructions should the run perform it, the task queue and the status enumeration.
\<close>

record run_env =
  lib :: pylib
  uuid4_hex :: pystr
  get_config :: "exn + config_obj"
  AnalysisService :: "exn + analysis_service"
  HistoryService :: "exn + history_service"
  StockService :: "exn + stock_service"
  SystemConfigService :: "exn + system_config_service"
  get_task_queue :: "exn + task_queue"
  TaskStatusEnum :: task_status_enum

text \<open>An assignment to an attribute of \<open>st.session_state\<close>.\<close>

definition assign :: "(session_state \<Rightarrow> session_state) \<Rightarrow> stmt" where
  "assign f a = (None, a\<lparr>session := f (session a)\<rparr>)"

text \<open>\<open>st.session_state.x = C()\<close>: the construction runs, and if it returns, \<open>x\<close> is set.\<close>

definition construct :: "call \<Rightarrow> exn + 'a \<Rightarrow> ('a \<Rightarrow> session_state \<Rightarrow> session_state) \<Rightarrow> stmt" where
  "construct c outcome store =
     seq (invoke c) (case outcome of Inl e \<Rightarrow> raise e | Inr v \<Rightarrow> assign (store v))"

text \<open>\<open>if "initialized" not in st.session_state: ...\<close>\<close>

definition initialize :: "run_env \<Rightarrow> stmt" where
  "initialize env =
     with_session (\<lambda>s. if initialized s = None then
        block [
          assign (\<lambda>s. s\<lparr>initialized := Some True\<rparr>),
          construct NewConfig (get_config env) (\<lambda>v s. s\<lparr>config := Some v\<rparr>),
          construct NewAnalysisService (AnalysisService env)
            (\<lambda>v s. s\<lparr>analysis_service := Some v\<rparr>),
          construct NewHistoryService (HistoryService env)
            (\<lambda>v s. s\<lparr>history_service := Some v\<rparr>),
          construct NewStockService (StockService env) (\<lambda>v s. s\<lparr>stock_service := Some v\<rparr>),
          construct NewSystemConfigService (SystemConfigService env)
            (\<lambda>v s. s\<lparr>system_config_service := Some v\<rparr>)]
      else skip)"

text \<open>
  The navigation choice of a run together with the values of the input widgets of the
  chosen page.
\<close>

datatype page_input =
    AnalysisPage pystr report_type bool bool bool
  | HistoryPage pystr nat nat nat bool
  | QuotePage pystr bool bool
  | TaskMonitorPage bool
  | ConfigPage

definition sidebar_title :: pystr where
  "sidebar_title = [128200, 32, 32929, 31080, 26234, 33021, 20998, 26512, 31995, 32479]"

definition sidebar_hdr_info :: pystr where
  "sidebar_hdr_info = [35, 35, 35, 32, 31995, 32479, 20449, 24687]"

definition sidebar_mode :: pystr where
  "sidebar_mode = [42, 42, 36816, 34892, 27169, 24335, 42, 42, 58, 32] @ ascii ''Streamlit Web UI''"

text \<open>\<open>config = st.session_state.config\<close>, read outside any \<open>try\<close>.\<close>

definition read_config :: "pylib \<Rightarrow> stmt" where
  "read_config L =
     with_session (\<lambda>s. case config s of
        None \<Rightarrow> raise (Exception (attribute_error L ''config''))
      | Some c \<Rightarrow> skip)"

fun route :: "run_env \<Rightarrow> page_input \<Rightarrow> stmt" where
  "route env (AnalysisPage stock_code rtype force_refresh send_notification clicked) =
     show_analysis_page (lib env) (uuid4_hex env) stock_code rtype force_refresh
       send_notification clicked"
| "route env (HistoryPage stock_code_filter days_back page_size selected clicked) =
     show_history_page (lib env) stock_code_filter days_back page_size selected clicked"
| "route env (QuotePage stock_code kline_checked clicked) =
     show_stock_quote_page (lib env) stock_code kline_checked clicked"
| "route env (TaskMonitorPage refresh) =
     show_task_monitor_page (TaskStatusEnum env) (get_task_queue env) refresh"
| "route env ConfigPage = show_config_page (lib env)"

definition main :: "run_env \<Rightarrow> page_input \<Rightarrow> stmt" where
  "main env page = block [
     emit (Sidebar (Title sidebar_title)),
     emit (Sidebar (Markdown (ascii ''---''))),
     emit (Sidebar (Markdown (ascii ''---''))),
     emit (Sidebar (Markdown sidebar_hdr_info)),
     read_config (lib env),
     emit (Sidebar (Info sidebar_mode)),
     route env page]"

text \<open>One run of the script, top to bottom, on the session as the previous run left it.\<close>

definition run_script :: "run_env \<Rightarrow> page_input \<Rightarrow> stmt" where
  "run_script env page = seq (initialize env) (main env page)"

definition fresh_app :: "session_state \<Rightarrow> app" where
  "fresh_app s = \<lparr>session = s, rendered = [], calls = [], logged = []\<rparr>"

text \<open>The session before the first run: no attribute is set.\<close>

definition new_session :: session_state where
  "new_session = \<lparr>initialized = None, config = None, analysis_service = None,
     history_service = None, stock_service = None, system_config_service = None\<rparr>"

text \<open>
  A session is a sequence of runs, each on the session state the one before left. The
  result is the final session state and every collaborator call made, in order.
\<close>

fun run_session :: "(run_env \<times> page_input) list \<Rightarrow> session_state \<Rightarrow> session_state \<times> call list" where
  "run_session [] s = (s, [])"
| "run_session ((env, page) # rest) s =
     (let a = snd (run_script env page (fresh_app s));
          (s', cs) = run_session rest (session a)
      in (s', calls a @ cs))"

text \<open>The five constructions of the initialisation, in the order of the script.\<close>

fun is_construction :: "call \<Rightarrow> bool" where
  "is_construction NewConfig = True"
| "is_construction NewAnalysisService = True"
| "is_construction NewHistoryService = True"
| "is_construction NewStockService = True"
| "is_construction NewSystemConfigService = True"
| "is_construction c = False"

definition constructions :: "call list" where
  "constructions = [NewConfig, NewAnalysisService, NewHistoryService, NewStockService,
     NewSystemConfigService]"

section \<open>Properties of statements\<close>

text \<open>A statement that leaves \<open>st.session_state\<close> as it found it.\<close>

definition keeps_session :: "stmt \<Rightarrow> bool" where
  "keeps_session s = (\<forall>a. session (snd (s a)) = session a)"

text \<open>A statement out of which no exception propagates.\<close>

definition never_raises :: "stmt \<Rightarrow> bool" where
  "never_raises s = (\<forall>a e. fst (s a) \<noteq> Some (Raised e))"

text \<open>A statement that makes calls, but none of the five constructions.\<close>

definition constructs_nothing :: "stmt \<Rightarrow> bool" where
  "constructs_nothing s =
     (\<forall>a. \<exists>cs. calls (snd (s a)) = calls a @ cs \<and> filter is_construction cs = [])"

text \<open>A statement that renders text inputs for keys of the given set only.\<close>

definition inputs_within :: "pystr set \<Rightarrow> stmt \<Rightarrow> bool" where
  "inputs_within K s =
     (\<forall>a. \<exists>ws. rendered (snd (s a)) = rendered a @ ws
          \<and> set (concat (map input_keys ws)) \<subseteq> K)"

section \<open>Sample environments\<close>

text \<open>
  Concrete collaborators on which the theorems below are instantiated: a library with
  sample message texts, services that raise, services that return nothing.
\<close>

definition sample_lib :: pylib where
  "sample_lib = \<lparr>
     float_str = (\<lambda>x. ascii ''1.5''),
     float_2f = (\<lambda>x. ascii ''1.50''),
     float_truthy = (\<lambda>x. True),
     bigint_2f = (\<lambda>n. Inl (Exception (ascii ''int too large to convert to float''))),
     container_str = (\<lambda>v. ascii ''[...]''),
     unicode_lower = (\<lambda>s. s),
     format_none_error = ascii ''unsupported format string passed to NoneType.__format__'',
     format_str_error = ascii ''Unknown format code f for object of type str'',
     format_container_error = (\<lambda>v. ascii ''unsupported format string''),
     len_error = (\<lambda>v. ascii ''object has no len()''),
     slice_error = (\<lambda>v. ascii ''object is not subscriptable''),
     progress_error = (\<lambda>n. ascii ''Progress Value has invalid value''),
     attribute_error = (\<lambda>name. ascii ''st.session_state has no attribute '' @ ascii name),
     date_days_back = (\<lambda>n. ascii ''2024-01-01'')\<rparr>"

definition sample_exn :: exn where
  "sample_exn = Exception (ascii ''connection timed out'')"

definition raising_stock_service :: stock_service where
  "raising_stock_service =
     \<lparr>get_realtime_quote = (\<lambda>code. Inl sample_exn),
      get_history_data = (\<lambda>code period days. Inl sample_exn)\<rparr>"

definition raising_session :: session_state where
  "raising_session =
     \<lparr>initialized = Some True, config = Some (Config []),
      analysis_service = Some (\<lambda>args. Inl sample_exn),
      history_service = Some (\<lambda>args. Inl sample_exn),
      stock_service = Some raising_stock_service,
      system_config_service = Some (\<lambda>include_schema. Inl sample_exn)\<rparr>"

definition empty_stock_service :: stock_service where
  "empty_stock_service =
     \<lparr>get_realtime_quote = (\<lambda>code. Inr None),
      get_history_data = (\<lambda>code period days. Inr None)\<rparr>"

definition empty_session :: session_state where
  "empty_session =
     \<lparr>initialized = Some True, config = Some (Config []),
      analysis_service = Some (\<lambda>args. Inr None),
      history_service = Some (\<lambda>args. Inr None),
      stock_service = Some empty_stock_service,
      system_config_service = Some (\<lambda>include_schema. Inr None)\<rparr>"

definition sample_task :: "string \<Rightarrow> string \<Rightarrow> task" where
  "sample_task code status =
     \<lparr>task_stock_code = Some (ascii code), task_created_at = None,
      task_status = Some (ascii status)\<rparr>"

definition sample_config :: "pyval pydict" where
  "sample_config =
     [(ascii ''gemini_api_key'', PStr (ascii ''sk-1234567890'')),
      (ascii ''internal_password'', PStr (ascii ''hunter2hunter2'')),
      (ascii ''openai_model'', PStr (ascii ''gpt-4o'')),
      (ascii ''tushare_token'', PNone)]"

definition config_session :: session_state where
  "config_session =
     \<lparr>initialized = Some True, config = Some (Config sample_config),
      analysis_service = None, history_service = None, stock_service = None,
      system_config_service =
        Some (\<lambda>include_schema. Inr (Some \<lparr>cd_config = Some sample_config\<rparr>))\<rparr>"


text \<open>A session whose stock service returns the given quote.\<close>

definition quote_session :: "quote \<Rightarrow> session_state" where
  "quote_session q =
     \<lparr>initialized = Some True, config = Some (Config []),
      analysis_service = None, history_service = None,
      stock_service = Some \<lparr>get_realtime_quote = (\<lambda>code. Inr (Some q)),
                             get_history_data = (\<lambda>code period days. Inr None)\<rparr>,
      system_config_service = None\<rparr>"

definition sample_enum :: task_status_enum where
  "sample_enum = \<lparr>RUNNING = ascii ''running'', COMPLETED = ascii ''completed'',
     FAILED = ascii ''failed''\<rparr>"

text \<open>A run in which every construction succeeds.\<close>

definition sample_env :: run_env where
  "sample_env = \<lparr>lib = sample_lib, uuid4_hex = ascii ''q1'',
     get_config = Inr (Config sample_config),
     AnalysisService = Inr (\<lambda>args. Inr None),
     HistoryService = Inr (\<lambda>args. Inr None),
     StockService = Inr empty_stock_service,
     SystemConfigService = Inr (\<lambda>include_schema. Inr None),
     get_task_queue = Inr (\<lambda>limit. Inr []),
     TaskStatusEnum = sample_enum\<rparr>"

section \<open>Properties\<close>

subsection \<open>Substring test\<close>

lemma starts_with_iff: "starts_with sub s \<longleftrightarrow> (\<exists>post. s = sub @ post)"
  by (induction sub s rule: starts_with.induct) auto

lemma py_in_iff: "py_in sub s \<longleftrightarrow> (\<exists>pre post. s = pre @ sub @ post)"
proof (induction s)
  case Nil
  show ?case by auto
next
  case (Cons c cs)
  show ?case
  proof
    assume "py_in sub (c # cs)"
    then consider "starts_with sub (c # cs)" | "py_in sub cs" by auto
    then show "\<exists>pre post. c # cs = pre @ sub @ post"
    proof cases
      case 1
      then obtain post where "c # cs = sub @ post" by (auto simp: starts_with_iff)
      then have "c # cs = [] @ sub @ post" by simp
      then show ?thesis by blast
    next
      case 2
      then obtain pre post where "cs = pre @ sub @ post" using Cons.IH by auto
      then have "c # cs = (c # pre) @ sub @ post" by simp
      then show ?thesis by blast
    qed
  next
    assume "\<exists>pre post. c # cs = pre @ sub @ post"
    then obtain pre post where e: "c # cs = pre @ sub @ post" by blast
    show "py_in sub (c # cs)"
    proof (cases pre)
      case Nil
      with e have "starts_with sub (c # cs)" by (auto simp: starts_with_iff)
      then show ?thesis by simp
    next
      case (Cons p ps)
      with e have "cs = ps @ sub @ post" by simp
      then have "py_in sub cs" using Cons.IH by blast
      then show ?thesis by simp
    qed
  qed
qed

lemma py_in_contains: "py_in tok s = contains s tok"
  by (simp add: py_in_iff contains_def)

subsection \<open>Statements that keep the session and never raise\<close>

lemmas stmt_defs = seq_def emit_def invoke_def raise_def log_exception_def skip_def
  try_except_def if_present_def st_rerun_def with_session_def assign_def

lemma keeps_basic:
  "keeps_session skip" "keeps_session (emit w)" "keeps_session (invoke c)"
  "keeps_session (log_exception m)" "keeps_session (raise e)" "keeps_session st_rerun"
  by (simp_all add: keeps_session_def stmt_defs)

lemma keeps_seq: "keeps_session s \<Longrightarrow> keeps_session t \<Longrightarrow> keeps_session (seq s t)"
  by (auto simp: keeps_session_def seq_def split: prod.splits option.splits) (metis snd_conv)+

lemma keeps_try:
  "keeps_session body \<Longrightarrow> (\<And>e. keeps_session (h e)) \<Longrightarrow> keeps_session (try_except body h)"
  by (auto simp: keeps_session_def try_except_def split: prod.splits option.splits signal.splits)
     (metis snd_conv)+

lemma keeps_if_present:
  "(\<And>v. keeps_session (f v)) \<Longrightarrow> keeps_session (if_present x f)"
  by (cases x) (auto simp: if_present_def keeps_basic)

lemma keeps_with_session:
  "(\<And>s. keeps_session (f s)) \<Longrightarrow> keeps_session (with_session f)"
  by (simp add: keeps_session_def with_session_def)

lemmas keeps_rules = keeps_basic keeps_seq keeps_try keeps_if_present keeps_with_session

lemma keeps_block_map: "(\<And>x. keeps_session (f x)) \<Longrightarrow> keeps_session (block (map f xs))"
  by (induction xs) (simp_all add: keeps_rules)

lemma never_basic:
  "never_raises skip" "never_raises (emit w)" "never_raises (invoke c)"
  "never_raises (log_exception m)" "never_raises st_rerun"
  by (simp_all add: never_raises_def stmt_defs)

lemma never_seq: "never_raises s \<Longrightarrow> never_raises t \<Longrightarrow> never_raises (seq s t)"
  by (auto simp: never_raises_def seq_def split: prod.splits option.splits) (metis fst_conv)+

lemma never_try: "(\<And>e. never_raises (h e)) \<Longrightarrow> never_raises (try_except body h)"
  by (auto simp: never_raises_def try_except_def split: prod.splits option.splits signal.splits)

lemmas never_rules = never_basic never_seq never_try

lemma keeps_show_structured_report: "keeps_session (show_structured_report L r)"
  by (simp add: show_structured_report_def st_progress_def keeps_rules)

lemma keeps_show_analysis_result: "keeps_session (show_analysis_result L q r)"
  by (simp add: show_analysis_result_def keeps_rules keeps_show_structured_report
      split: option.splits report.splits)

lemma keeps_analysis_try: "keeps_session (analysis_try L q c rt fr sn)"
  by (simp add: analysis_try_def Let_def keeps_rules keeps_show_analysis_result
      split: option.splits sum.splits)

lemma keeps_show_analysis_page: "keeps_session (show_analysis_page L q c rt fr sn cl)"
  by (simp add: show_analysis_page_def keeps_rules keeps_analysis_try)

lemma never_show_analysis_page: "never_raises (show_analysis_page L q c rt fr sn cl)"
  by (simp add: show_analysis_page_def never_rules)

lemma keeps_show_history_items: "keeps_session (show_history_items p its sel)"
  by (simp add: show_history_items_def keeps_rules split: sum.splits)

lemma keeps_show_history_result: "keeps_session (show_history_result r sel)"
  by (simp add: show_history_result_def keeps_rules keeps_show_history_items split: option.splits)

lemma keeps_history_try: "keeps_session (history_try L f d p sel)"
  by (simp add: history_try_def Let_def keeps_rules keeps_show_history_result
      split: option.splits sum.splits)

lemma keeps_show_history_page: "keeps_session (show_history_page L f d p sel cl)"
  by (simp add: show_history_page_def keeps_rules keeps_history_try)

lemma never_show_history_page: "never_raises (show_history_page L f d p sel cl)"
  by (simp add: show_history_page_def never_rules)

lemma keeps_show_quote_fields: "keeps_session (show_quote_fields L q)"
  by (simp add: show_quote_fields_def show_change_def keeps_rules split: sum.splits)

lemma keeps_kline_try: "keeps_session (kline_try L c)"
  by (simp add: kline_try_def Let_def keeps_rules split: option.splits sum.splits)

lemma keeps_show_quote_result: "keeps_session (show_quote_result L c k r)"
  by (simp add: show_quote_result_def show_kline_def keeps_rules keeps_show_quote_fields
      keeps_kline_try split: option.splits)

lemma keeps_quote_try: "keeps_session (quote_try L c k)"
  by (simp add: quote_try_def Let_def keeps_rules keeps_show_quote_result
      split: option.splits sum.splits)

lemma keeps_show_stock_quote_page: "keeps_session (show_stock_quote_page L c k cl)"
  by (simp add: show_stock_quote_page_def keeps_rules keeps_quote_try)

lemma never_show_stock_quote_page: "never_raises (show_stock_quote_page L c k cl)"
  by (simp add: show_stock_quote_page_def never_rules)

lemma keeps_show_tasks: "keeps_session (show_tasks E ts)"
  by (simp add: show_tasks_def show_task_groups_def keeps_rules keeps_block_map split: prod.splits)

lemma keeps_show_task_monitor_page: "keeps_session (show_task_monitor_page E g r)"
  by (simp add: show_task_monitor_page_def task_try_def keeps_rules keeps_show_tasks
      split: sum.splits)

lemma never_show_task_monitor_page: "never_raises (show_task_monitor_page E g r)"
  by (simp add: show_task_monitor_page_def never_rules)

lemma keeps_show_section: "keeps_session (show_section L cfg sec)"
  by (simp add: show_section_def keeps_rules split: prod.splits option.splits)

lemma keeps_show_config_data: "keeps_session (show_config_data L d)"
  by (simp add: show_config_data_def show_sections_def keeps_rules keeps_block_map
      keeps_show_section split: option.splits)

lemma keeps_config_try: "keeps_session (config_try L)"
  by (simp add: config_try_def Let_def keeps_rules keeps_show_config_data
      split: option.splits sum.splits)

lemma keeps_show_config_page: "keeps_session (show_config_page L)"
  by (simp add: show_config_page_def keeps_rules keeps_config_try)

lemma never_show_config_page: "never_raises (show_config_page L)"
  by (simp add: show_config_page_def never_rules)

lemma keeps_route: "keeps_session (route env p)"
  by (cases p) (simp_all add: keeps_show_analysis_page keeps_show_history_page
      keeps_show_stock_quote_page keeps_show_task_monitor_page keeps_show_config_page)

lemma never_route: "never_raises (route env p)"
  by (cases p) (simp_all add: never_show_analysis_page never_show_history_page
      never_show_stock_quote_page never_show_task_monitor_page never_show_config_page)

lemma keeps_read_config: "keeps_session (read_config L)"
  by (simp add: read_config_def keeps_rules split: option.splits)

lemma keeps_main: "keeps_session (main env p)"
  by (simp add: main_def keeps_rules keeps_read_config keeps_route)

subsection \<open>A failing collaborator call\<close>

lemma analysis_failure:
  assumes "analysis_service (session a) = Some svc" and "str_truthy stock_code"
    and "svc \<lparr>arg_stock_code = py_strip stock_code, arg_report_type = rt,
               arg_force_refresh = fr, arg_query_id = qid, arg_send_notification = sn\<rparr> = Inl e"
  shows "show_analysis_page L qid stock_code rt fr sn True a =
     (None, a\<lparr>rendered := rendered a @ [Title analysis_title, Markdown analysis_intro,
                  Spinner (spinner_analysing stock_code), Error (msg_analysis_error e)],
               calls := calls a @ [AnalyzeStock \<lparr>arg_stock_code = py_strip stock_code, arg_report_type = rt,
               arg_force_refresh = fr, arg_query_id = qid, arg_send_notification = sn\<rparr>],
               logged := logged a @ [ascii ''Analysis error'']\<rparr>)"
  using assms by (simp add: show_analysis_page_def analysis_try_def stmt_defs Let_def)

lemma history_failure:
  assumes "history_service (session a) = Some svc"
    and "svc (history_query L f d p) = Inl e"
  shows "show_history_page L f d p sel True a =
     (None, a\<lparr>rendered := rendered a @ [Title history_title, Markdown history_intro,
                  Spinner spinner_history, Error (msg_query_failed e)],
               calls := calls a @ [GetHistoryList (history_query L f d p)],
               logged := logged a @ [ascii ''History query error'']\<rparr>)"
  using assms by (simp add: show_history_page_def history_try_def stmt_defs Let_def)

lemma quote_failure:
  assumes "stock_service (session a) = Some svc" and "str_truthy stock_code"
    and "get_realtime_quote svc (py_strip stock_code) = Inl e"
  shows "show_stock_quote_page L stock_code k True a =
     (None, a\<lparr>rendered := rendered a @ [Title quote_title, Markdown quote_intro,
                  Spinner (spinner_quote stock_code), Error (msg_query_failed e)],
               calls := calls a @ [GetRealtimeQuote (py_strip stock_code)],
               logged := logged a @ [ascii ''Stock quote error'']\<rparr>)"
  using assms by (simp add: show_stock_quote_page_def quote_try_def stmt_defs Let_def)

lemma task_queue_failure:
  "show_task_monitor_page E (Inl e) False a =
     (None, a\<lparr>rendered := rendered a @ [Title task_title, Markdown task_intro,
                  Error (msg_tasks_failed e)],
               calls := calls a @ [GetTaskQueue],
               logged := logged a @ [ascii ''Task monitor error'']\<rparr>)"
  by (simp add: show_task_monitor_page_def task_try_def stmt_defs Let_def)

lemma list_tasks_failure:
  assumes "tq 50 = Inl e"
  shows "show_task_monitor_page E (Inr tq) False a =
     (None, a\<lparr>rendered := rendered a @ [Title task_title, Markdown task_intro,
                  Error (msg_tasks_failed e)],
               calls := calls a @ [GetTaskQueue, ListTasks 50],
               logged := logged a @ [ascii ''Task monitor error'']\<rparr>)"
  using assms by (simp add: show_task_monitor_page_def task_try_def stmt_defs Let_def)

lemma config_failure:
  assumes "system_config_service (session a) = Some svc" and "svc True = Inl e"
  shows "show_config_page L a =
     (None, a\<lparr>rendered := rendered a @ [Title config_title, Markdown config_intro,
                  Error (msg_config_failed e)],
               calls := calls a @ [GetConfig True],
               logged := logged a @ [ascii ''Config page error'']\<rparr>)"
  using assms by (simp add: show_config_page_def config_try_def stmt_defs Let_def)

lemma contains_suffix: "contains (pre @ t) t"
  unfolding contains_def by (metis append_Nil2)

text \<open>
  C3: in every view, a collaborator call that raises is caught by the view. For the
  Analysis, History, Quote, TaskMonitor (both \<open>get_task_queue\<close> and \<open>list_tasks\<close>) and
  Config views the whole outcome of the render is given: the view completes, the error
  box with the text of the exception is the last thing rendered, the failure is logged,
  and the session state, with its flag and handles, is the one the view started on. The
  text of the error box contains \<open>str(e)\<close>. For all inputs and collaborators, no
  exception leaves the view the router dispatches to, and the session is unchanged.
\<close>

theorem collaborator_failure_is_caught:
  "(analysis_service (session a) = Some asvc \<and> str_truthy stock_code
      \<and> asvc \<lparr>arg_stock_code = py_strip stock_code, arg_report_type = rt,
                arg_force_refresh = fr, arg_query_id = qid, arg_send_notification = sn\<rparr> = Inl e
    \<longrightarrow> show_analysis_page L qid stock_code rt fr sn True a =
         (None, a\<lparr>rendered := rendered a @ [Title analysis_title, Markdown analysis_intro,
                      Spinner (spinner_analysing stock_code), Error (msg_analysis_error e)],
                   calls := calls a @ [AnalyzeStock
                      \<lparr>arg_stock_code = py_strip stock_code, arg_report_type = rt,
                       arg_force_refresh = fr, arg_query_id = qid,
                       arg_send_notification = sn\<rparr>],
                   logged := logged a @ [ascii ''Analysis error'']\<rparr>))
   \<and> (history_service (session a) = Some hsvc \<and> hsvc (history_query L f d p) = Inl e
    \<longrightarrow> show_history_page L f d p sel True a =
         (None, a\<lparr>rendered := rendered a @ [Title history_title, Markdown history_intro,
                      Spinner spinner_history, Error (msg_query_failed e)],
                   calls := calls a @ [GetHistoryList (history_query L f d p)],
                   logged := logged a @ [ascii ''History query error'']\<rparr>))
   \<and> (stock_service (session a) = Some ssvc \<and> str_truthy stock_code
      \<and> get_realtime_quote ssvc (py_strip stock_code) = Inl e
    \<longrightarrow> show_stock_quote_page L stock_code k True a =
         (None, a\<lparr>rendered := rendered a @ [Title quote_title, Markdown quote_intro,
                      Spinner (spinner_quote stock_code), Error (msg_query_failed e)],
                   calls := calls a @ [GetRealtimeQuote (py_strip stock_code)],
                   logged := logged a @ [ascii ''Stock quote error'']\<rparr>))
   \<and> show_task_monitor_page E (Inl e) False a =
         (None, a\<lparr>rendered := rendered a @ [Title task_title, Markdown task_intro,
                      Error (msg_tasks_failed e)],
                   calls := calls a @ [GetTaskQueue],
                   logged := logged a @ [ascii ''Task monitor error'']\<rparr>)
   \<and> (tq 50 = Inl e
    \<longrightarrow> show_task_monitor_page E (Inr tq) False a =
         (None, a\<lparr>rendered := rendered a @ [Title task_title, Markdown task_intro,
                      Error (msg_tasks_failed e)],
                   calls := calls a @ [GetTaskQueue, ListTasks 50],
                   logged := logged a @ [ascii ''Task monitor error'']\<rparr>))
   \<and> (system_config_service (session a) = Some csvc \<and> csvc True = Inl e
    \<longrightarrow> show_config_page L a =
         (None, a\<lparr>rendered := rendered a @ [Title config_title, Markdown config_intro,
                      Error (msg_config_failed e)],
                   calls := calls a @ [GetConfig True],
                   logged := logged a @ [ascii ''Config page error'']\<rparr>))
   \<and> contains (msg_analysis_error e) (str_exn e) \<and> contains (msg_query_failed e) (str_exn e)
   \<and> contains (msg_tasks_failed e) (str_exn e) \<and> contains (msg_config_failed e) (str_exn e)
   \<and> never_raises (route env page) \<and> keeps_session (route env page)"
proof -
  have texts: "contains (msg_analysis_error e) (str_exn e)"
    "contains (msg_query_failed e) (str_exn e)"
    "contains (msg_tasks_failed e) (str_exn e)" "contains (msg_config_failed e) (str_exn e)"
    unfolding msg_analysis_error_def msg_query_failed_def msg_tasks_failed_def
      msg_config_failed_def by (rule contains_suffix)+
  show ?thesis
    by (intro conjI impI; (elim conjE)?)
       (assumption | rule analysis_failure history_failure quote_failure task_queue_failure
          list_tasks_failure config_failure texts never_route keeps_route)+
qed

theorem collaborator_failure_is_caught_witness:
  "show_analysis_page sample_lib (ascii ''q1'') (ascii ''600519'') Detailed False True True
       (fresh_app raising_session) =
     (None, \<lparr>session = raising_session,
             rendered = [Title analysis_title, Markdown analysis_intro,
                Spinner (spinner_analysing (ascii ''600519'')), Error (msg_analysis_error sample_exn)],
             calls = [AnalyzeStock \<lparr>arg_stock_code = ascii ''600519'', arg_report_type = Detailed,
                arg_force_refresh = False, arg_query_id = ascii ''q1'',
                arg_send_notification = True\<rparr>],
             logged = [ascii ''Analysis error'']\<rparr>)
   \<and> show_history_page sample_lib [] 30 20 0 True (fresh_app raising_session) =
     (None, \<lparr>session = raising_session,
             rendered = [Title history_title, Markdown history_intro, Spinner spinner_history,
                Error (msg_query_failed sample_exn)],
             calls = [GetHistoryList (history_query sample_lib [] 30 20)],
             logged = [ascii ''History query error'']\<rparr>)
   \<and> show_stock_quote_page sample_lib (ascii ''600519'') False True (fresh_app raising_session) =
     (None, \<lparr>session = raising_session,
             rendered = [Title quote_title, Markdown quote_intro,
                Spinner (spinner_quote (ascii ''600519'')), Error (msg_query_failed sample_exn)],
             calls = [GetRealtimeQuote (ascii ''600519'')],
             logged = [ascii ''Stock quote error'']\<rparr>)
   \<and> show_task_monitor_page sample_enum (Inr (\<lambda>limit. Inl sample_exn)) False
       (fresh_app raising_session) =
     (None, \<lparr>session = raising_session,
             rendered = [Title task_title, Markdown task_intro, Error (msg_tasks_failed sample_exn)],
             calls = [GetTaskQueue, ListTasks 50],
             logged = [ascii ''Task monitor error'']\<rparr>)
   \<and> show_config_page sample_lib (fresh_app raising_session) =
     (None, \<lparr>session = raising_session,
             rendered = [Title config_title, Markdown config_intro,
                Error (msg_config_failed sample_exn)],
             calls = [GetConfig True],
             logged = [ascii ''Config page error'']\<rparr>)"
proof -
  have strip: "py_strip (ascii ''600519'') = ascii ''600519''"
    by (simp add: py_strip_def py_isspace_def ascii_def)
  have truthy: "str_truthy (ascii ''600519'')"
    by (simp add: str_truthy_def ascii_def)
  note inst = collaborator_failure_is_caught [where a = "fresh_app raising_session"
      and asvc = "\<lambda>args. Inl sample_exn" and hsvc = "\<lambda>args. Inl sample_exn"
      and ssvc = raising_stock_service and csvc = "\<lambda>include_schema. Inl sample_exn"
      and tq = "\<lambda>limit. Inl sample_exn" and e = sample_exn
      and stock_code = "ascii ''600519''" and L = sample_lib and qid = "ascii ''q1''"
      and rt = Detailed and fr = False and sn = True and f = "[]" and d = 30 and p = 20
      and sel = 0 and k = False and E = sample_enum]
  show ?thesis
    using inst strip truthy
    by (simp add: fresh_app_def raising_session_def raising_stock_service_def)
qed

subsection \<open>Validation of the stock code\<close>

lemma strip_whitespace_only: "list_all py_isspace s \<Longrightarrow> py_strip s = []"
proof -
  assume "list_all py_isspace s"
  then have "dropWhile py_isspace s = []"
    by (induction s) simp_all
  then show ?thesis
    unfolding py_strip_def by (simp only: rev.simps dropWhile.simps)
qed

lemma empty_code_is_rejected:
  "show_analysis_page L qid [] rt fr sn True a =
     (None, a\<lparr>rendered := rendered a @ [Title analysis_title, Markdown analysis_intro,
                  Error msg_enter_code]\<rparr>)"
  "show_stock_quote_page L [] k True a =
     (None, a\<lparr>rendered := rendered a @ [Title quote_title, Markdown quote_intro,
                  Error msg_enter_code]\<rparr>)"
  by (simp_all add: show_analysis_page_def show_stock_quote_page_def str_truthy_def stmt_defs)

text \<open>
  C1: a stock code that is empty or only whitespace is to be rejected with a visible
  error and no collaborator call. The views test the text as entered (\<open>if not
  stock_code\<close>) and strip it afterwards, so the empty code is rejected
  (\<open>empty_code_is_rejected\<close>) but a whitespace-only code is not: for the code of one
  space, the Analysis view calls \<open>analyze_stock\<close> and the Quote view
  \<open>get_realtime_quote\<close>, each with the empty stock code, and no validation error is
  rendered.
\<close>

theorem whitespace_stock_code_reaches_collaborator:
  "show_analysis_page sample_lib (ascii ''q1'') [32] Detailed False True True
       (fresh_app empty_session) =
     (None, \<lparr>session = empty_session,
             rendered = [Title analysis_title, Markdown analysis_intro,
                Spinner (spinner_analysing [32]), Error msg_analysis_failed],
             calls = [AnalyzeStock \<lparr>arg_stock_code = [], arg_report_type = Detailed,
                arg_force_refresh = False, arg_query_id = ascii ''q1'',
                arg_send_notification = True\<rparr>],
             logged = []\<rparr>)
   \<and> show_stock_quote_page sample_lib [32] False True (fresh_app empty_session) =
     (None, \<lparr>session = empty_session,
             rendered = [Title quote_title, Markdown quote_intro,
                Spinner (spinner_quote [32]), Error msg_quote_failed],
             calls = [GetRealtimeQuote []],
             logged = []\<rparr>)"
  by (simp add: show_analysis_page_def show_stock_quote_page_def analysis_try_def quote_try_def
      show_analysis_result_def show_quote_result_def stmt_defs str_truthy_def py_strip_def
      py_isspace_def fresh_app_def empty_session_def empty_stock_service_def)

subsection \<open>The history query\<close>

lemma history_filter_cases:
  "history_filter f = (if f = [] then None else Some (py_strip f))"
  by (simp add: history_filter_def str_truthy_def)

lemma history_query_page: "h_page (history_query L f d p) = 1"
  by (simp add: history_query_def)

text \<open>
  C8: the filter of the history query is to be null exactly when the trimmed input is
  empty, and the page is 1. The view tests the input as entered and strips it
  afterwards (\<open>history_filter_cases\<close>): for the input of one space, which trims to
  empty, the filter sent is the empty string, not null. The page is 1.
\<close>

theorem whitespace_filter_is_not_null:
  "py_strip [32] = []
   \<and> history_query sample_lib [32] 30 20 =
       \<lparr>h_stock_code = Some [], h_start_date = ascii ''2024-01-01'', h_page = 1, h_limit = 20\<rparr>
   \<and> show_history_page sample_lib [32] 30 20 0 True (fresh_app empty_session) =
     (None, \<lparr>session = empty_session,
             rendered = [Title history_title, Markdown history_intro, Spinner spinner_history,
                Info msg_no_history],
             calls = [GetHistoryList \<lparr>h_stock_code = Some [], h_start_date = ascii ''2024-01-01'',
                h_page = 1, h_limit = 20\<rparr>],
             logged = []\<rparr>)"
  by (simp add: show_history_page_def history_try_def show_history_result_def history_query_def
      history_filter_def stmt_defs str_truthy_def py_strip_def py_isspace_def fresh_app_def
      empty_session_def sample_lib_def)


subsection \<open>An empty result\<close>

lemma analysis_empty:
  assumes "analysis_service (session a) = Some svc" and "str_truthy stock_code"
    and "svc \<lparr>arg_stock_code = py_strip stock_code, arg_report_type = rt,
               arg_force_refresh = fr, arg_query_id = qid, arg_send_notification = sn\<rparr> = Inr None"
  shows "show_analysis_page L qid stock_code rt fr sn True a =
     (None, a\<lparr>rendered := rendered a @ [Title analysis_title, Markdown analysis_intro,
                  Spinner (spinner_analysing stock_code), Error msg_analysis_failed],
               calls := calls a @ [AnalyzeStock \<lparr>arg_stock_code = py_strip stock_code,
                  arg_report_type = rt, arg_force_refresh = fr, arg_query_id = qid,
                  arg_send_notification = sn\<rparr>]\<rparr>)"
  using assms
  by (simp add: show_analysis_page_def analysis_try_def show_analysis_result_def stmt_defs Let_def)

lemma history_empty:
  assumes "history_service (session a) = Some svc"
    and "svc (history_query L f d p) = Inr r"
    and "r = None \<or> (\<exists>pg. r = Some pg \<and> (page_items pg = None \<or> page_items pg = Some []))"
  shows "show_history_page L f d p sel True a =
     (None, a\<lparr>rendered := rendered a @ [Title history_title, Markdown history_intro,
                  Spinner spinner_history, Info msg_no_history],
               calls := calls a @ [GetHistoryList (history_query L f d p)]\<rparr>)"
  using assms
  by (auto simp: show_history_page_def history_try_def show_history_result_def stmt_defs Let_def)

lemma quote_empty:
  assumes "stock_service (session a) = Some svc" and "str_truthy stock_code"
    and "get_realtime_quote svc (py_strip stock_code) = Inr r" and "r = None \<or> r = Some []"
  shows "show_stock_quote_page L stock_code k True a =
     (None, a\<lparr>rendered := rendered a @ [Title quote_title, Markdown quote_intro,
                  Spinner (spinner_quote stock_code), Error msg_quote_failed],
               calls := calls a @ [GetRealtimeQuote (py_strip stock_code)]\<rparr>)"
  using assms
  by (auto simp: show_stock_quote_page_def quote_try_def show_quote_result_def stmt_defs Let_def)

lemma tasks_empty:
  assumes "tq 50 = Inr []"
  shows "show_task_monitor_page E (Inr tq) False a =
     (None, a\<lparr>rendered := rendered a @ [Title task_title, Markdown task_intro,
                  Info msg_no_tasks],
               calls := calls a @ [GetTaskQueue, ListTasks 50]\<rparr>)"
  using assms
  by (simp add: show_task_monitor_page_def task_try_def show_tasks_def stmt_defs Let_def)

lemma config_empty:
  assumes "system_config_service (session a) = Some svc" and "svc True = Inr r"
    and "r = None \<or> (\<exists>d. r = Some d \<and> cd_config d = None)"
  shows "show_config_page L a =
     (None, a\<lparr>rendered := rendered a @ [Title config_title, Markdown config_intro,
                  Warning msg_config_unavailable],
               calls := calls a @ [GetConfig True]\<rparr>)"
  using assms
  by (auto simp: show_config_page_def config_try_def show_config_data_def stmt_defs Let_def)

text \<open>
  C2, as the code has it: when the collaborator call succeeds with an empty result, the
  History and TaskMonitor views render an info box and the Config view a warning box,
  whose markers differ from the error marker of a failure; the Analysis and Quote views
  render a fixed failure text in an error box, the marker a raised failure gets too.
\<close>

theorem empty_result_states:
  "(analysis_service (session a) = Some asvc \<and> str_truthy stock_code
      \<and> asvc \<lparr>arg_stock_code = py_strip stock_code, arg_report_type = rt,
                arg_force_refresh = fr, arg_query_id = qid, arg_send_notification = sn\<rparr>
          = Inr None
    \<longrightarrow> show_analysis_page L qid stock_code rt fr sn True a =
         (None, a\<lparr>rendered := rendered a @ [Title analysis_title, Markdown analysis_intro,
                      Spinner (spinner_analysing stock_code), Error msg_analysis_failed],
                   calls := calls a @ [AnalyzeStock \<lparr>arg_stock_code = py_strip stock_code,
                      arg_report_type = rt, arg_force_refresh = fr, arg_query_id = qid,
                      arg_send_notification = sn\<rparr>]\<rparr>))
   \<and> (history_service (session a) = Some hsvc \<and> hsvc (history_query L f d p) = Inr hr
      \<and> (hr = None \<or> (\<exists>pg. hr = Some pg \<and> (page_items pg = None \<or> page_items pg = Some [])))
    \<longrightarrow> show_history_page L f d p sel True a =
         (None, a\<lparr>rendered := rendered a @ [Title history_title, Markdown history_intro,
                      Spinner spinner_history, Info msg_no_history],
                   calls := calls a @ [GetHistoryList (history_query L f d p)]\<rparr>))
   \<and> (stock_service (session a) = Some ssvc \<and> str_truthy stock_code
      \<and> get_realtime_quote ssvc (py_strip stock_code) = Inr qr \<and> (qr = None \<or> qr = Some [])
    \<longrightarrow> show_stock_quote_page L stock_code k True a =
         (None, a\<lparr>rendered := rendered a @ [Title quote_title, Markdown quote_intro,
                      Spinner (spinner_quote stock_code), Error msg_quote_failed],
                   calls := calls a @ [GetRealtimeQuote (py_strip stock_code)]\<rparr>))
   \<and> (tq 50 = Inr []
    \<longrightarrow> show_task_monitor_page E (Inr tq) False a =
         (None, a\<lparr>rendered := rendered a @ [Title task_title, Markdown task_intro,
                      Info msg_no_tasks],
                   calls := calls a @ [GetTaskQueue, ListTasks 50]\<rparr>))
   \<and> (system_config_service (session a) = Some csvc \<and> csvc True = Inr cr
      \<and> (cr = None \<or> (\<exists>cd. cr = Some cd \<and> cd_config cd = None))
    \<longrightarrow> show_config_page L a =
         (None, a\<lparr>rendered := rendered a @ [Title config_title, Markdown config_intro,
                      Warning msg_config_unavailable],
                   calls := calls a @ [GetConfig True]\<rparr>))
   \<and> marker_of (Info msg_no_history) \<noteq> marker_of (Error (msg_query_failed e))
   \<and> marker_of (Info msg_no_tasks) \<noteq> marker_of (Error (msg_tasks_failed e))
   \<and> marker_of (Warning msg_config_unavailable) \<noteq> marker_of (Error (msg_config_failed e))
   \<and> marker_of (Error msg_analysis_failed) = marker_of (Error (msg_analysis_error e))
   \<and> marker_of (Error msg_quote_failed) = marker_of (Error (msg_query_failed e))"
  by (intro conjI impI; (elim conjE)?)
     (simp | (rule analysis_empty history_empty quote_empty tasks_empty config_empty;
              assumption))+

theorem empty_result_states_witness:
  "show_analysis_page sample_lib (ascii ''q1'') (ascii ''600519'') Detailed False True True
       (fresh_app empty_session) =
     (None, \<lparr>session = empty_session,
             rendered = [Title analysis_title, Markdown analysis_intro,
                Spinner (spinner_analysing (ascii ''600519'')), Error msg_analysis_failed],
             calls = [AnalyzeStock \<lparr>arg_stock_code = ascii ''600519'', arg_report_type = Detailed,
                arg_force_refresh = False, arg_query_id = ascii ''q1'',
                arg_send_notification = True\<rparr>],
             logged = []\<rparr>)
   \<and> show_history_page sample_lib [] 30 20 0 True (fresh_app empty_session) =
     (None, \<lparr>session = empty_session,
             rendered = [Title history_title, Markdown history_intro, Spinner spinner_history,
                Info msg_no_history],
             calls = [GetHistoryList (history_query sample_lib [] 30 20)],
             logged = []\<rparr>)
   \<and> show_stock_quote_page sample_lib (ascii ''600519'') False True (fresh_app empty_session) =
     (None, \<lparr>session = empty_session,
             rendered = [Title quote_title, Markdown quote_intro,
                Spinner (spinner_quote (ascii ''600519'')), Error msg_quote_failed],
             calls = [GetRealtimeQuote (ascii ''600519'')],
             logged = []\<rparr>)
   \<and> show_task_monitor_page sample_enum (Inr (\<lambda>limit. Inr [])) False (fresh_app empty_session) =
     (None, \<lparr>session = empty_session,
             rendered = [Title task_title, Markdown task_intro, Info msg_no_tasks],
             calls = [GetTaskQueue, ListTasks 50],
             logged = []\<rparr>)
   \<and> show_config_page sample_lib (fresh_app empty_session) =
     (None, \<lparr>session = empty_session,
             rendered = [Title config_title, Markdown config_intro, Warning msg_config_unavailable],
             calls = [GetConfig True],
             logged = []\<rparr>)"
proof -
  have strip: "py_strip (ascii ''600519'') = ascii ''600519''"
    by (simp add: py_strip_def py_isspace_def ascii_def)
  have truthy: "str_truthy (ascii ''600519'')"
    by (simp add: str_truthy_def ascii_def)
  note inst = empty_result_states [where a = "fresh_app empty_session"
      and asvc = "\<lambda>args. Inr None" and hsvc = "\<lambda>args. Inr None" and hr = None
      and ssvc = empty_stock_service and qr = None
      and csvc = "\<lambda>include_schema. Inr None" and cr = None
      and tq = "\<lambda>limit. Inr []"
      and stock_code = "ascii ''600519''" and L = sample_lib and qid = "ascii ''q1''"
      and rt = Detailed and fr = False and sn = True and f = "[]" and d = 30 and p = 20
      and sel = 0 and k = False and E = sample_enum]
  show ?thesis
    using inst strip truthy
    by (simp add: fresh_app_def empty_session_def empty_stock_service_def)
qed

text \<open>
  The claim as stated fails in the Analysis and Quote views: the statuses rendered for an
  empty result carry the same markers as the ones rendered when the call raises.
\<close>

theorem empty_analysis_result_has_error_marker:
  "map marker_of (rendered (snd (show_analysis_page sample_lib (ascii ''q1'') (ascii ''600519'')
       Detailed False True True (fresh_app empty_session))))
     = [None, None, None, Some MError]
   \<and> map marker_of (rendered (snd (show_analysis_page sample_lib (ascii ''q1'') (ascii ''600519'')
       Detailed False True True (fresh_app raising_session))))
     = [None, None, None, Some MError]
   \<and> map marker_of (rendered (snd (show_stock_quote_page sample_lib (ascii ''600519'')
       False True (fresh_app empty_session))))
     = [None, None, None, Some MError]
   \<and> map marker_of (rendered (snd (show_stock_quote_page sample_lib (ascii ''600519'')
       False True (fresh_app raising_session))))
     = [None, None, None, Some MError]"
  by (simp add: show_analysis_page_def show_stock_quote_page_def analysis_try_def quote_try_def
      show_analysis_result_def show_quote_result_def stmt_defs str_truthy_def ascii_def
      fresh_app_def empty_session_def raising_session_def empty_stock_service_def
      raising_stock_service_def)



subsection \<open>Grouping the tasks by status\<close>

lemma block_emits: "block (map (\<lambda>x. emit (g x)) xs) a = (None, a\<lparr>rendered := rendered a @ map g xs\<rparr>)"
  by (induction xs arbitrary: a) (simp_all add: stmt_defs)

lemma set_first_seen: "set (first_seen xs) = set xs"
  by (induction xs) auto

lemma distinct_first_seen: "distinct (first_seen xs)"
  by (induction xs) (auto simp: set_first_seen)

lemma first_seen_snoc:
  "first_seen (xs @ [x]) = (if x \<in> set xs then first_seen xs else first_seen xs @ [x])"
  by (induction xs) (auto simp: set_first_seen)

lemma group_step_spec:
  assumes "set ks = status_of ` set ts"
  shows "group_step (map (\<lambda>s. (s, filter (\<lambda>t. status_of t = s) ts)) ks) t =
     map (\<lambda>s. (s, filter (\<lambda>t. status_of t = s) (ts @ [t])))
       (if status_of t \<in> set ks then ks else ks @ [status_of t])"
  using assms by (auto simp: group_step_def Let_def comp_def filter_empty_conv image_iff)

lemma group_tasks_snoc: "group_tasks (ts @ [t]) = group_step (group_tasks ts) t"
  by (simp add: group_tasks_def)

lemma group_tasks_spec:
  "group_tasks ts =
     map (\<lambda>s. (s, filter (\<lambda>t. status_of t = s) ts)) (first_seen (map status_of ts))"
proof (induction ts rule: rev_induct)
  case Nil
  show ?case by (simp add: group_tasks_def)
next
  case (snoc t ts)
  have "set (first_seen (map status_of ts)) = status_of ` set ts"
    by (simp add: set_first_seen)
  from group_step_spec[OF this] snoc show ?case
    by (simp add: group_tasks_snoc first_seen_snoc set_first_seen)
qed

text \<open>
  C6: for every sequence of tasks, the groups are the distinct statuses in the order in
  which they are first seen in the input, and the group of a status holds the tasks of
  that status in their order in the input; the view renders one expander per group in
  that order. For the statuses running, completed, running, failed the groups are
  running (its two tasks in order), completed, failed.
\<close>

theorem tasks_grouped_in_first_seen_order:
  "group_tasks tasks =
     map (\<lambda>s. (s, filter (\<lambda>t. status_of t = s) tasks)) (first_seen (map status_of tasks))
   \<and> map fst (group_tasks tasks) = first_seen (map status_of tasks)
   \<and> distinct (map fst (group_tasks tasks))
   \<and> set (map fst (group_tasks tasks)) = set (map status_of tasks)
   \<and> first_seen (xs @ [x]) = (if x \<in> set xs then first_seen xs else first_seen xs @ [x])
   \<and> show_task_groups E tasks a =
       (None, a\<lparr>rendered := rendered a @
          map (\<lambda>(status, task_list).
                 Expander (group_label status task_list) (concat (map (task_row E) task_list)))
            (group_tasks tasks)\<rparr>)
   \<and> group_tasks [sample_task ''A'' ''running'', sample_task ''B'' ''completed'',
         sample_task ''C'' ''running'', sample_task ''D'' ''failed''] =
       [(ascii ''running'', [sample_task ''A'' ''running'', sample_task ''C'' ''running'']),
        (ascii ''completed'', [sample_task ''B'' ''completed'']),
        (ascii ''failed'', [sample_task ''D'' ''failed''])]"
proof -
  have keys: "map fst (group_tasks tasks) = first_seen (map status_of tasks)"
    by (simp add: group_tasks_spec comp_def)
  have "(\<lambda>(status, task_list).
           emit (Expander (group_label status task_list) (concat (map (task_row E) task_list))))
      = (\<lambda>x. emit ((\<lambda>(status, task_list).
           Expander (group_label status task_list) (concat (map (task_row E) task_list))) x))"
    by auto
  then have shown: "show_task_groups E tasks a =
       (None, a\<lparr>rendered := rendered a @
          map (\<lambda>(status, task_list).
                 Expander (group_label status task_list) (concat (map (task_row E) task_list)))
            (group_tasks tasks)\<rparr>)"
    by (simp add: show_task_groups_def block_emits)
  have example: "group_tasks [sample_task ''A'' ''running'', sample_task ''B'' ''completed'',
         sample_task ''C'' ''running'', sample_task ''D'' ''failed''] =
       [(ascii ''running'', [sample_task ''A'' ''running'', sample_task ''C'' ''running'']),
        (ascii ''completed'', [sample_task ''B'' ''completed'']),
        (ascii ''failed'', [sample_task ''D'' ''failed''])]"
    by (simp add: group_tasks_def group_step_def status_of_def sample_task_def ascii_def Let_def)
  show ?thesis
    using group_tasks_spec [of tasks] keys shown example
    by (simp add: distinct_first_seen set_first_seen first_seen_snoc del: map_map)
qed

subsection \<open>The Config view\<close>






lemma mask_text:
  "mask_value L (PStr v) = Inr (if length v > 8 then take 8 v @ ascii ''...'' else ascii ''***'')"
  "mask_value L PNone = Inr (ascii ''***'')"
  by (auto simp: mask_value_def)








lemma within_basic:
  "inputs_within K skip" "inputs_within K (invoke c)"
  "inputs_within K (log_exception m)" "inputs_within K (raise e)"
  by (simp_all add: inputs_within_def stmt_defs)

lemma within_emit: "set (input_keys w) \<subseteq> K \<Longrightarrow> inputs_within K (emit w)"
  by (simp add: inputs_within_def stmt_defs)

lemma within_seq:
  assumes "inputs_within K s" and "inputs_within K t"
  shows "inputs_within K (seq s t)"
  unfolding inputs_within_def
proof
  fix a
  obtain r a' where sa: "s a = (r, a')" by (cases "s a")
  from assms(1) sa obtain ws where ws: "rendered a' = rendered a @ ws"
    "set (concat (map input_keys ws)) \<subseteq> K"
    unfolding inputs_within_def by (metis snd_conv)
  from assms(2) obtain vs where vs: "rendered (snd (t a')) = rendered a' @ vs"
    "set (concat (map input_keys vs)) \<subseteq> K"
    unfolding inputs_within_def by blast
  show "\<exists>ws. rendered (snd (seq s t a)) = rendered a @ ws \<and> set (concat (map input_keys ws)) \<subseteq> K"
  proof (cases r)
    case None
    with sa ws vs have "rendered (snd (seq s t a)) = rendered a @ (ws @ vs)" by (simp add: seq_def)
    moreover from ws vs have "set (concat (map input_keys (ws @ vs))) \<subseteq> K" by simp
    ultimately show ?thesis by blast
  next
    case (Some sig)
    with sa have "rendered (snd (seq s t a)) = rendered a'" by (simp add: seq_def)
    with ws show ?thesis by metis
  qed
qed

lemma within_try:
  assumes "inputs_within K body" and "\<And>e. inputs_within K (h e)"
  shows "inputs_within K (try_except body h)"
  unfolding inputs_within_def
proof
  fix a
  obtain r a' where sa: "body a = (r, a')" by (cases "body a")
  from assms(1) sa obtain ws where ws: "rendered a' = rendered a @ ws"
    "set (concat (map input_keys ws)) \<subseteq> K"
    unfolding inputs_within_def by (metis snd_conv)
  show "\<exists>ws. rendered (snd (try_except body h a)) = rendered a @ ws
          \<and> set (concat (map input_keys ws)) \<subseteq> K"
  proof (cases "\<exists>e. r = Some (Raised e)")
    case True
    then obtain e where r: "r = Some (Raised e)" by blast
    from assms(2)[of e] obtain vs where vs: "rendered (snd (h e a')) = rendered a' @ vs"
      "set (concat (map input_keys vs)) \<subseteq> K"
      unfolding inputs_within_def by blast
    with sa ws r have "rendered (snd (try_except body h a)) = rendered a @ (ws @ vs)"
      by (simp add: try_except_def)
    moreover from ws vs have "set (concat (map input_keys (ws @ vs))) \<subseteq> K" by simp
    ultimately show ?thesis by blast
  next
    case False
    with sa have "try_except body h a = (r, a')"
      by (auto simp: try_except_def split: option.splits signal.splits)
    with ws show ?thesis by (metis snd_conv)
  qed
qed

lemma within_with_session:
  "(\<And>s. inputs_within K (f s)) \<Longrightarrow> inputs_within K (with_session f)"
  by (simp add: inputs_within_def with_session_def)

lemmas within_rules = within_basic within_emit within_seq within_try within_with_session

lemma within_block_map:
  "(\<And>x. x \<in> set xs \<Longrightarrow> inputs_within K (f x)) \<Longrightarrow> inputs_within K (block (map f xs))"
  by (induction xs) (simp_all add: within_rules)

lemma section_inputs_keys:
  "x \<in> set (concat (map input_keys (fst (section_inputs L cfg keys)))) \<Longrightarrow> x \<in> set keys"
proof (induction keys)
  case Nil
  then show ?case by simp
next
  case (Cons key keys)
  show ?case
  proof (cases "map_of cfg key")
    case None
    with Cons show ?thesis by simp
  next
    case (Some v)
    show ?thesis
    proof (cases "display_value L key v")
      case (Inl e)
      with Some Cons.prems show ?thesis by simp
    next
      case (Inr d)
      obtain ws r where si: "section_inputs L cfg keys = (ws, r)"
        by (cases "section_inputs L cfg keys")
      with Some Inr Cons.prems have "x = key \<or> x \<in> set (concat (map input_keys ws))"
        by auto
      with Cons.IH si show ?thesis by auto
    qed
  qed
qed

lemma within_show_section:
  assumes "set (snd sec) \<subseteq> K"
  shows "inputs_within K (show_section L cfg sec)"
proof -
  obtain ws r where si: "section_inputs L cfg (snd sec) = (ws, r)"
    by (cases "section_inputs L cfg (snd sec)")
  have "set (input_keys (Expander (fst sec) ws)) \<subseteq> K"
    using section_inputs_keys[of _ L cfg "snd sec"] si assms by auto
  with si show ?thesis
    by (cases r) (simp_all add: show_section_def within_rules)
qed

lemma within_show_config_page: "inputs_within (set table_keys) (show_config_page L)"
proof -
  have "inputs_within (set table_keys) (show_section L cfg sec)" if "sec \<in> set sections" for cfg sec
    using that by (intro within_show_section) (auto simp: table_keys_def)
  then show ?thesis
    by (simp add: show_config_page_def config_try_def show_config_data_def show_sections_def
        within_rules within_block_map split: option.splits sum.splits)
qed

lemma config_page_input_keys:
  "set (concat (map input_keys (rendered (snd (show_config_page L a)))))
     \<subseteq> set (concat (map input_keys (rendered a))) \<union> set table_keys"
proof -
  from within_show_config_page[of L] obtain ws where
    "rendered (snd (show_config_page L a)) = rendered a @ ws"
    "set (concat (map input_keys ws)) \<subseteq> set table_keys"
    unfolding inputs_within_def by blast
  then show ?thesis by auto
qed


lemma section_inputs_ok:
  assumes "\<forall>key \<in> set keys. \<forall>v. map_of cfg key = Some v \<longrightarrow> (\<exists>d. display_value L key v = Inr d)"
  shows "snd (section_inputs L cfg keys) = None
     \<and> concat (map input_keys (fst (section_inputs L cfg keys)))
         = filter (\<lambda>k. map_of cfg k \<noteq> None) keys"
  using assms
proof (induction keys)
  case Nil
  show ?case by simp
next
  case (Cons key keys)
  then have ih: "snd (section_inputs L cfg keys) = None"
    "concat (map input_keys (fst (section_inputs L cfg keys)))
         = filter (\<lambda>k. map_of cfg k \<noteq> None) keys"
    by simp_all
  show ?case
  proof (cases "map_of cfg key")
    case None
    with ih show ?thesis by simp
  next
    case (Some v)
    with Cons.prems obtain d where d: "display_value L key v = Inr d" by auto
    obtain ws r where si: "section_inputs L cfg keys = (ws, r)"
      by (cases "section_inputs L cfg keys")
    with Some d ih show ?thesis by simp
  qed
qed

lemma show_section_ok:
  assumes "snd (section_inputs L cfg (snd sec)) = None"
  shows "show_section L cfg sec = emit (Expander (fst sec) (fst (section_inputs L cfg (snd sec))))"
proof -
  obtain ws r where si: "section_inputs L cfg (snd sec) = (ws, r)"
    by (cases "section_inputs L cfg (snd sec)")
  with assms show ?thesis by (simp add: show_section_def)
qed

lemma show_sections_ok:
  assumes "\<forall>sec \<in> set secs. snd (section_inputs L cfg (snd sec)) = None"
  shows "block (map (show_section L cfg) secs) a =
    (None, a\<lparr>rendered := rendered a @
       map (\<lambda>(name, keys). Expander name (fst (section_inputs L cfg keys))) secs\<rparr>)"
  using assms
proof (induction secs arbitrary: a)
  case Nil
  show ?case by (simp add: skip_def)
next
  case (Cons sec secs)
  obtain name keys where sec: "sec = (name, keys)" by (cases sec)
  from Cons.prems have "show_section L cfg sec
      = emit (Expander (fst sec) (fst (section_inputs L cfg (snd sec))))"
    by (intro show_section_ok) simp
  with Cons sec show ?case by (simp add: seq_def emit_def)
qed

lemma input_keys_sections:
  assumes "\<forall>key \<in> set (concat (map snd secs)). \<forall>v. map_of cfg key = Some v \<longrightarrow> (\<exists>d. display_value L key v = Inr d)"
  shows "concat (map input_keys
           (map (\<lambda>(name, keys). Expander name (fst (section_inputs L cfg keys))) secs))
    = filter (\<lambda>k. map_of cfg k \<noteq> None) (concat (map snd secs))"
  using assms
proof (induction secs)
  case Nil
  show ?case by simp
next
  case (Cons sec secs)
  obtain name keys where sec: "sec = (name, keys)" by (cases sec)
  from Cons.prems sec have
    "\<forall>key \<in> set keys. \<forall>v. map_of cfg key = Some v \<longrightarrow> (\<exists>d. display_value L key v = Inr d)"
    by simp
  from section_inputs_ok[OF this] have
    k: "concat (map input_keys (fst (section_inputs L cfg keys)))
         = filter (\<lambda>k. map_of cfg k \<noteq> None) keys" by simp
  from Cons.prems have
    "\<forall>key \<in> set (concat (map snd secs)). \<forall>v. map_of cfg key = Some v \<longrightarrow> (\<exists>d. display_value L key v = Inr d)"
    by simp
  from Cons.IH[OF this] k sec show ?case by simp
qed

lemma config_shown:
  assumes "system_config_service (session a) = Some svc" and "svc True = Inr (Some cd)"
    and "cd_config cd = Some cfg"
    and "\<forall>key \<in> set table_keys. \<forall>v. map_of cfg key = Some v \<longrightarrow> (\<exists>d. display_value L key v = Inr d)"
  shows "show_config_page L a =
     (None, a\<lparr>rendered := rendered a @ [Title config_title, Markdown config_intro,
                  Markdown hdr_current_config]
                  @ map (\<lambda>(name, keys). Expander name (fst (section_inputs L cfg keys))) sections
                  @ [Info msg_config_hint],
               calls := calls a @ [GetConfig True]\<rparr>)"
proof -
  have "\<forall>sec \<in> set sections. snd (section_inputs L cfg (snd sec)) = None"
  proof
    fix sec assume "sec \<in> set sections"
    then have "set (snd sec) \<subseteq> set table_keys" by (auto simp: table_keys_def)
    with assms(4) have "\<forall>key \<in> set (snd sec). \<forall>v. map_of cfg key = Some v \<longrightarrow> (\<exists>d. display_value L key v = Inr d)"
      by blast
    from section_inputs_ok[OF this] show "snd (section_inputs L cfg (snd sec)) = None" by simp
  qed
  from show_sections_ok[OF this] have
    "\<And>b. show_sections L cfg b = (None, b\<lparr>rendered := rendered b @
       map (\<lambda>(name, keys). Expander name (fst (section_inputs L cfg keys))) sections\<rparr>)"
    by (simp add: show_sections_def)
  with assms(1-3) show ?thesis
    by (simp add: show_config_page_def config_try_def show_config_data_def
        stmt_defs Let_def)
qed


text \<open>
  C10: the Config view shows a text input for exactly the keys of its section table that
  are present in the returned mapping, in the order of the table (when no value stops the
  view, as is the case when every value is a string or null); whatever the service
  returns, no key outside the table is ever shown, masked or not.
\<close>

theorem config_view_shows_table_keys_only:
  "(system_config_service (session a) = Some csvc \<and> csvc True = Inr (Some cd)
      \<and> cd_config cd = Some config_dict
      \<and> (\<forall>key \<in> set table_keys. \<forall>v. map_of config_dict key = Some v
            \<longrightarrow> (\<exists>shown. display_value L key v = Inr shown))
    \<longrightarrow> show_config_page L a =
         (None, a\<lparr>rendered := rendered a @ [Title config_title, Markdown config_intro,
                      Markdown hdr_current_config]
                      @ map (\<lambda>(name, keys).
                               Expander name (fst (section_inputs L config_dict keys))) sections
                      @ [Info msg_config_hint],
                   calls := calls a @ [GetConfig True]\<rparr>)
        \<and> concat (map input_keys (rendered (snd (show_config_page L a))))
            = concat (map input_keys (rendered a))
              @ filter (\<lambda>k. map_of config_dict k \<noteq> None) table_keys)
   \<and> ((\<forall>key v. map_of config_dict key = Some v \<longrightarrow> v = PNone \<or> (\<exists>t. v = PStr t))
        \<longrightarrow> (\<forall>key \<in> set table_keys. \<forall>v. map_of config_dict key = Some v
              \<longrightarrow> (\<exists>shown. display_value L key v = Inr shown)))
   \<and> set (concat (map input_keys (rendered (snd (show_config_page L a)))))
        \<subseteq> set (concat (map input_keys (rendered a))) \<union> set table_keys
   \<and> table_keys =
       [ascii ''gemini_api_key'', ascii ''openai_api_key'', ascii ''openai_base_url'',
        ascii ''openai_model'', ascii ''wechat_webhook_url'', ascii ''feishu_webhook_url'',
        ascii ''telegram_bot_token'', ascii ''tushare_token'', ascii ''tavily_api_keys'',
        ascii ''serpapi_keys'', ascii ''stock_list'']"
proof -
  have shown: "concat (map input_keys (rendered (snd (show_config_page L a))))
            = concat (map input_keys (rendered a))
              @ filter (\<lambda>k. map_of config_dict k \<noteq> None) table_keys"
    if "system_config_service (session a) = Some csvc" "csvc True = Inr (Some cd)"
      "cd_config cd = Some config_dict"
      "\<forall>key \<in> set table_keys. \<forall>v. map_of config_dict key = Some v
            \<longrightarrow> (\<exists>shown. display_value L key v = Inr shown)"
  proof -
    from that(4) have "\<forall>key \<in> set (concat (map snd sections)). \<forall>v. map_of config_dict key = Some v
            \<longrightarrow> (\<exists>shown. display_value L key v = Inr shown)"
      by (simp add: table_keys_def)
    from input_keys_sections[OF this] config_shown[OF that] show ?thesis
      by (simp add: table_keys_def del: map_map)
  qed
  have plain: "\<forall>key \<in> set table_keys. \<forall>v. map_of config_dict key = Some v
              \<longrightarrow> (\<exists>shown. display_value L key v = Inr shown)"
    if t: "\<forall>key v. map_of config_dict key = Some v \<longrightarrow> v = PNone \<or> (\<exists>t. v = PStr t)"
  proof (intro ballI allI impI)
    fix key v assume "map_of config_dict key = Some v"
    with t have "v = PNone \<or> (\<exists>t. v = PStr t)" by blast
    then show "\<exists>shown. display_value L key v = Inr shown"
      by (auto simp: display_value_def mask_text)
  qed
  have keys: "table_keys =
       [ascii ''gemini_api_key'', ascii ''openai_api_key'', ascii ''openai_base_url'',
        ascii ''openai_model'', ascii ''wechat_webhook_url'', ascii ''feishu_webhook_url'',
        ascii ''telegram_bot_token'', ascii ''tushare_token'', ascii ''tavily_api_keys'',
        ascii ''serpapi_keys'', ascii ''stock_list'']"
    by (simp add: table_keys_def sections_def)
  show ?thesis
    using shown config_shown [of a csvc cd config_dict L] plain config_page_input_keys [of L a] keys
    by blast
qed

theorem config_view_shows_table_keys_only_witness:
  "show_config_page sample_lib (fresh_app config_session) =
     (None, \<lparr>session = config_session,
        rendered = [Title config_title, Markdown config_intro, Markdown hdr_current_config,
          Expander [65, 73, 32, 37197, 32622]
            [TextInput (ascii ''gemini_api_key'') (PStr (ascii ''sk-12345...'')),
             TextInput (ascii ''openai_model'') (PStr (ascii ''gpt-4o''))],
          Expander [36890, 30693, 37197, 32622] [],
          Expander [25968, 25454, 28304, 37197, 32622]
            [TextInput (ascii ''tushare_token'') (PStr (ascii ''***''))],
          Expander [32929, 31080, 37197, 32622] [],
          Info msg_config_hint],
        calls = [GetConfig True], logged = []\<rparr>)
   \<and> concat (map input_keys (rendered (snd (show_config_page sample_lib (fresh_app config_session)))))
       = [ascii ''gemini_api_key'', ascii ''openai_model'', ascii ''tushare_token'']
   \<and> map_of sample_config (ascii ''internal_password'') = Some (PStr (ascii ''hunter2hunter2''))"
proof -
  have svc: "system_config_service (session (fresh_app config_session))
      = Some (\<lambda>include_schema. Inr (Some \<lparr>cd_config = Some sample_config\<rparr>))"
    by (simp add: fresh_app_def config_session_def)
  have ins: "map (\<lambda>(name, keys). Expander name (fst (section_inputs sample_lib sample_config keys)))
        sections =
      [Expander [65, 73, 32, 37197, 32622]
            [TextInput (ascii ''gemini_api_key'') (PStr (ascii ''sk-12345...'')),
             TextInput (ascii ''openai_model'') (PStr (ascii ''gpt-4o''))],
          Expander [36890, 30693, 37197, 32622] [],
          Expander [25968, 25454, 28304, 37197, 32622]
            [TextInput (ascii ''tushare_token'') (PStr (ascii ''***''))],
          Expander [32929, 31080, 37197, 32622] []]"
    by (simp add: sections_def sample_config_def display_value_def
        mask_value_def is_sensitive_def py_lower_def lower_char_def is_ascii_def ascii_def)
  have flt: "filter (\<lambda>k. map_of sample_config k \<noteq> None) table_keys
       = [ascii ''gemini_api_key'', ascii ''openai_model'', ascii ''tushare_token'']"
    by (simp add: table_keys_def sections_def sample_config_def ascii_def)
  have pw: "map_of sample_config (ascii ''internal_password'') = Some (PStr (ascii ''hunter2hunter2''))"
    by (simp add: sample_config_def ascii_def)
  have tv: "\<forall>key v. map_of sample_config key = Some v \<longrightarrow> v = PNone \<or> (\<exists>t. v = PStr t)"
    by (auto simp: sample_config_def split: if_splits)
  note inst = config_view_shows_table_keys_only [where a = "fresh_app config_session"
        and csvc = "\<lambda>include_schema. Inr (Some \<lparr>cd_config = Some sample_config\<rparr>)"
        and cd = "\<lparr>cd_config = Some sample_config\<rparr>" and config_dict = sample_config
        and L = sample_lib]
  from inst tv have ok: "\<forall>key \<in> set table_keys. \<forall>v. map_of sample_config key = Some v
              \<longrightarrow> (\<exists>shown. display_value sample_lib key v = Inr shown)"
    by blast
  show ?thesis
    using inst svc ins flt pw ok
    by (simp add: fresh_app_def)
qed


subsection \<open>The fields of a quote\<close>

lemma map_of_dict_del: "map_of (dict_del k d) k' = (if k' = k then None else map_of d k')"
  by (induction d) (auto simp: dict_del_def)

lemma dict_get_dict_del:
  "dict_get (dict_del k d) k' dflt = (if k' = k then dflt else dict_get d k' dflt)"
  by (simp add: dict_get_def map_of_dict_del)

lemma str_int_0: "str_int 0 = ascii ''0''"
  by (simp add: str_int_def digits_of.simps ascii_def)

lemma format_2f_0: "format_2f L (PInt 0) = Inr (ascii ''0.00'')"
  by (simp add: str_int_0 ascii_def)


lemma show_change_absent:
  "map_of q (ascii ''change'') = None \<Longrightarrow> map_of q (ascii ''change_percent'') = None \<Longrightarrow>
   show_change L q = emit (Metric lbl_change (ascii ''0.00'') (Some (ascii ''0.00%'')))"
  by (simp add: show_change_def dict_get_def str_int_0 ascii_def)

lemma show_quote_fields_ok:
  "fst (show_quote_fields L q a) = None \<longleftrightarrow>
     (\<exists>c p. format_2f L (dict_get q (ascii ''change'') (PInt 0)) = Inr c
          \<and> format_2f L (dict_get q (ascii ''change_percent'') (PInt 0)) = Inr p)"
  by (auto simp: show_quote_fields_def show_change_def stmt_defs split: sum.splits)

lemma removing_a_field_keeps_rendering:
  assumes "fst (show_quote_fields L q a) = None"
  shows "fst (show_quote_fields L (dict_del k q) a) = None"
  using assms by (auto simp: show_quote_fields_ok dict_get_dict_del format_2f_0)

lemma show_quote_fields_eq:
  assumes "format_2f L (dict_get q (ascii ''change'') (PInt 0)) = Inr c"
    and "format_2f L (dict_get q (ascii ''change_percent'') (PInt 0)) = Inr p"
  shows "show_quote_fields L q a =
    (None, a\<lparr>rendered := rendered a @
       [Metric lbl_current_price (quote_field L q ''current_price'') None,
        Metric lbl_change c (Some (p @ ascii ''%'')),
        Metric lbl_open (quote_field L q ''open'') None,
        Metric lbl_prev_close (quote_field L q ''prev_close'') None,
        Markdown (ascii ''---''),
        Markdown (lbl_high @ quote_field L q ''high''),
        Markdown (lbl_low @ quote_field L q ''low''),
        Markdown (lbl_volume @ quote_field L q ''volume''),
        Markdown (lbl_amount @ quote_field L q ''amount''),
        Markdown (lbl_turnover @ quote_field L q ''turnover_rate'')]\<rparr>)"
  using assms by (simp add: show_quote_fields_def show_change_def stmt_defs)









text \<open>
  A change that is present as text is refused by the format: the view shows the current
  price and then its error box.
\<close>

lemma text_change_is_refused:
  "show_stock_quote_page sample_lib (ascii ''600519'') False True
       (fresh_app (quote_session [(ascii ''change'', PStr (ascii ''1.5''))])) =
     (None, \<lparr>session = quote_session [(ascii ''change'', PStr (ascii ''1.5''))],
        rendered = [Title quote_title, Markdown quote_intro,
          Spinner (spinner_quote (ascii ''600519'')), Success msg_quote_ok,
          Metric lbl_current_price (ascii ''N/A'') None,
          Error (msg_query_failed (Exception (format_str_error sample_lib)))],
        calls = [GetRealtimeQuote (ascii ''600519'')],
        logged = [ascii ''Stock quote error'']\<rparr>)"
proof -
  have strip: "py_strip (ascii ''600519'') = ascii ''600519''"
    by (simp add: py_strip_def py_isspace_def ascii_def)
  have truthy: "str_truthy (ascii ''600519'')"
    by (simp add: str_truthy_def ascii_def)
  show ?thesis
    using strip truthy
    apply (simp add: show_stock_quote_page_def quote_try_def show_quote_result_def 
        show_quote_fields_def show_change_def quote_field_def dict_get_def
        stmt_defs fresh_app_def quote_session_def str_int_0)
    apply (simp add: ascii_def)
    done
qed




subsection \<open>Session initialisation\<close>

lemma nocon_basic:
  "constructs_nothing skip" "constructs_nothing (emit w)"
  "constructs_nothing (log_exception m)" "constructs_nothing (raise e)"
  "constructs_nothing st_rerun"
  by (simp_all add: constructs_nothing_def stmt_defs)

lemma nocon_invoke: "\<not> is_construction c \<Longrightarrow> constructs_nothing (invoke c)"
  by (simp add: constructs_nothing_def stmt_defs)

lemma nocon_seq:
  assumes "constructs_nothing s" and "constructs_nothing t"
  shows "constructs_nothing (seq s t)"
  unfolding constructs_nothing_def
proof
  fix a
  obtain r a' where sa: "s a = (r, a')" by (cases "s a")
  from assms(1) sa obtain cs where cs: "calls a' = calls a @ cs" "filter is_construction cs = []"
    unfolding constructs_nothing_def by (metis snd_conv)
  from assms(2) obtain ds where ds: "calls (snd (t a')) = calls a' @ ds" "filter is_construction ds = []"
    unfolding constructs_nothing_def by blast
  show "\<exists>cs. calls (snd (seq s t a)) = calls a @ cs \<and> filter is_construction cs = []"
  proof (cases r)
    case None
    with sa cs ds have "calls (snd (seq s t a)) = calls a @ (cs @ ds)" by (simp add: seq_def)
    with cs ds show ?thesis by (metis filter_append append_Nil)
  next
    case (Some sig)
    with sa cs show ?thesis by (auto simp: seq_def)
  qed
qed

lemma nocon_try:
  assumes "constructs_nothing body" and "\<And>e. constructs_nothing (h e)"
  shows "constructs_nothing (try_except body h)"
  unfolding constructs_nothing_def
proof
  fix a
  obtain r a' where sa: "body a = (r, a')" by (cases "body a")
  from assms(1) sa obtain cs where cs: "calls a' = calls a @ cs" "filter is_construction cs = []"
    unfolding constructs_nothing_def by (metis snd_conv)
  show "\<exists>cs. calls (snd (try_except body h a)) = calls a @ cs \<and> filter is_construction cs = []"
  proof (cases "\<exists>e. r = Some (Raised e)")
    case True
    then obtain e where r: "r = Some (Raised e)" by blast
    from assms(2)[of e] obtain ds where ds: "calls (snd (h e a')) = calls a' @ ds"
      "filter is_construction ds = []"
      unfolding constructs_nothing_def by blast
    with sa cs r have "calls (snd (try_except body h a)) = calls a @ (cs @ ds)"
      by (simp add: try_except_def)
    with cs ds show ?thesis by (metis filter_append append_Nil)
  next
    case False
    with sa have "try_except body h a = (r, a')"
      by (auto simp: try_except_def split: option.splits signal.splits)
    with cs show ?thesis by auto
  qed
qed

lemma nocon_if_present:
  "(\<And>v. constructs_nothing (f v)) \<Longrightarrow> constructs_nothing (if_present x f)"
  by (cases x) (auto simp: if_present_def nocon_basic)

lemma nocon_with_session:
  "(\<And>s. constructs_nothing (f s)) \<Longrightarrow> constructs_nothing (with_session f)"
  by (simp add: constructs_nothing_def with_session_def)

lemmas nocon_rules = nocon_basic nocon_invoke nocon_seq nocon_try nocon_if_present
  nocon_with_session

lemma nocon_block_map:
  "(\<And>x. constructs_nothing (f x)) \<Longrightarrow> constructs_nothing (block (map f xs))"
  by (induction xs) (simp_all add: nocon_rules)

lemma nocon_show_analysis_page: "constructs_nothing (show_analysis_page L q c rt fr sn cl)"
  by (simp add: show_analysis_page_def analysis_try_def show_analysis_result_def
      show_structured_report_def st_progress_def Let_def nocon_rules
      split: option.splits sum.splits report.splits)

lemma nocon_show_history_page: "constructs_nothing (show_history_page L f d p sel cl)"
  by (simp add: show_history_page_def history_try_def show_history_result_def
      show_history_items_def Let_def nocon_rules split: option.splits sum.splits)

lemma nocon_show_stock_quote_page: "constructs_nothing (show_stock_quote_page L c k cl)"
  by (simp add: show_stock_quote_page_def quote_try_def show_quote_result_def
      show_quote_fields_def show_change_def show_kline_def kline_try_def Let_def nocon_rules
      split: option.splits sum.splits)

lemma nocon_show_task_monitor_page: "constructs_nothing (show_task_monitor_page E g r)"
  by (simp add: show_task_monitor_page_def task_try_def show_tasks_def show_task_groups_def
      nocon_rules nocon_block_map split: sum.splits prod.splits)

lemma nocon_show_section: "constructs_nothing (show_section L cfg sec)"
  by (simp add: show_section_def nocon_rules split: prod.splits option.splits)

lemma nocon_show_config_page: "constructs_nothing (show_config_page L)"
  by (simp add: show_config_page_def config_try_def show_config_data_def show_sections_def
      nocon_rules nocon_block_map nocon_show_section split: option.splits sum.splits)

lemma nocon_main: "constructs_nothing (main env p)"
  by (cases p)
     (simp_all add: main_def read_config_def nocon_rules nocon_show_analysis_page
        nocon_show_history_page nocon_show_stock_quote_page nocon_show_task_monitor_page
        nocon_show_config_page split: option.splits)


lemma initialize_first:
  assumes "initialized (session a) = None" and "get_config env = Inr c"
    and "AnalysisService env = Inr s1" and "HistoryService env = Inr s2"
    and "StockService env = Inr s3" and "SystemConfigService env = Inr s4"
  shows "initialize env a =
    (None, a\<lparr>session := (session a)\<lparr>initialized := Some True, config := Some c,
                 analysis_service := Some s1, history_service := Some s2,
                 stock_service := Some s3, system_config_service := Some s4\<rparr>,
              calls := calls a @ constructions\<rparr>)"
  using assms by (simp add: initialize_def construct_def constructions_def stmt_defs)

lemma initialize_again:
  "initialized (session a) \<noteq> None \<Longrightarrow> initialize env a = (None, a)"
  by (auto simp: initialize_def stmt_defs)

lemma construct_cases:
  "construct c outcome store a =
     (case outcome of
        Inl e \<Rightarrow> (Some (Raised e), a\<lparr>calls := calls a @ [c]\<rparr>)
      | Inr v \<Rightarrow> (None, a\<lparr>calls := calls a @ [c], session := store v (session a)\<rparr>))"
  by (simp add: construct_def stmt_defs split: sum.splits)

lemma initialize_effect:
  "initialized (session (snd (initialize env a))) \<noteq> None
   \<and> (\<exists>n. calls (snd (initialize env a)) = calls a @ take n constructions)"
proof (cases "initialized (session a) = None")
  case False
  then have "initialize env a = (None, a)" by (rule initialize_again)
  then have "calls (snd (initialize env a)) = calls a @ take 0 constructions" by simp
  with False \<open>initialize env a = (None, a)\<close> show ?thesis by (metis snd_conv)
next
  case True
  have t: "take 1 constructions = [NewConfig]"
    "take 2 constructions = [NewConfig, NewAnalysisService]"
    "take 3 constructions = [NewConfig, NewAnalysisService, NewHistoryService]"
    "take 4 constructions = [NewConfig, NewAnalysisService, NewHistoryService, NewStockService]"
    "take 5 constructions = [NewConfig, NewAnalysisService, NewHistoryService, NewStockService,
       NewSystemConfigService]"
    by (simp_all add: constructions_def)
  show ?thesis
  proof (cases "get_config env")
    case (Inl e)
    with True have "initialized (session (snd (initialize env a))) \<noteq> None"
      "calls (snd (initialize env a)) = calls a @ [NewConfig]"
      by (simp_all add: initialize_def construct_cases seq_def with_session_def assign_def)
    then show ?thesis using t by metis
  next
    case c1: (Inr v1)
    show ?thesis
    proof (cases "AnalysisService env")
      case (Inl e)
      with True c1 have "initialized (session (snd (initialize env a))) \<noteq> None"
        "calls (snd (initialize env a)) = calls a @ [NewConfig, NewAnalysisService]"
        by (simp_all add: initialize_def construct_cases seq_def with_session_def assign_def)
      then show ?thesis using t by metis
    next
      case c2: (Inr v2)
      show ?thesis
      proof (cases "HistoryService env")
        case (Inl e)
        with True c1 c2 have "initialized (session (snd (initialize env a))) \<noteq> None"
          "calls (snd (initialize env a)) = calls a @ [NewConfig, NewAnalysisService, NewHistoryService]"
          by (simp_all add: initialize_def construct_cases seq_def with_session_def assign_def)
        then show ?thesis using t by metis
      next
        case c3: (Inr v3)
        show ?thesis
        proof (cases "StockService env")
          case (Inl e)
          with True c1 c2 c3 have "initialized (session (snd (initialize env a))) \<noteq> None"
            "calls (snd (initialize env a)) = calls a @ [NewConfig, NewAnalysisService, NewHistoryService, NewStockService]"
            by (simp_all add: initialize_def construct_cases seq_def with_session_def assign_def)
          then show ?thesis using t by metis
        next
          case c4: (Inr v4)
          show ?thesis
          proof (cases "SystemConfigService env")
            case (Inl e)
            with True c1 c2 c3 c4 have "initialized (session (snd (initialize env a))) \<noteq> None"
              "calls (snd (initialize env a)) = calls a @ [NewConfig, NewAnalysisService,
                 NewHistoryService, NewStockService, NewSystemConfigService]"
              by (simp_all add: initialize_def construct_cases seq_def with_session_def assign_def)
            then show ?thesis using t by metis
          next
            case (Inr v5)
            with True c1 c2 c3 c4 have "initialized (session (snd (initialize env a))) \<noteq> None"
              "calls (snd (initialize env a)) = calls a @ [NewConfig, NewAnalysisService,
                 NewHistoryService, NewStockService, NewSystemConfigService]"
              by (simp_all add: initialize_def construct_cases seq_def with_session_def assign_def
                  skip_def)
            then show ?thesis using t by metis
          qed
        qed
      qed
    qed
  qed
qed

lemma filter_take_constructions:
  "filter is_construction (take n constructions) = take n constructions"
proof -
  have "\<forall>c \<in> set constructions. is_construction c" by (simp add: constructions_def)
  then have "\<forall>c \<in> set (take n constructions). is_construction c"
    by (meson in_set_takeD)
  then show ?thesis by (simp add: filter_id_conv)
qed

lemma run_script_effect:
  "initialized (session (snd (run_script env page a))) \<noteq> None
   \<and> (\<exists>n. filter is_construction (calls (snd (run_script env page a)))
          = filter is_construction (calls a) @ take n constructions)
   \<and> (initialized (session a) \<noteq> None \<longrightarrow>
        session (snd (run_script env page a)) = session a
        \<and> filter is_construction (calls (snd (run_script env page a)))
          = filter is_construction (calls a))"
proof -
  obtain r a' where ia: "initialize env a = (r, a')" by (cases "initialize env a")
  from initialize_effect[of env a] ia obtain n where
    fl: "initialized (session a') \<noteq> None" and cl: "calls a' = calls a @ take n constructions"
    by auto
  from nocon_main[of env page] obtain cs where
    cs: "calls (snd (main env page a')) = calls a' @ cs" "filter is_construction cs = []"
    unfolding constructs_nothing_def by blast
  have ks: "session (snd (main env page a')) = session a'"
    using keeps_main[of env page] unfolding keeps_session_def by blast
  have rs: "snd (run_script env page a) = (case r of None \<Rightarrow> snd (main env page a') | Some sig \<Rightarrow> a')"
    using ia by (simp add: run_script_def seq_def split: option.splits prod.splits)
  have 1: "initialized (session (snd (run_script env page a))) \<noteq> None"
    using rs fl ks by (cases r) simp_all
  have 2: "filter is_construction (calls (snd (run_script env page a)))
          = filter is_construction (calls a) @ take n constructions"
    using rs cl cs by (cases r) (simp_all add: filter_take_constructions)
  have 3: "session (snd (run_script env page a)) = session a
        \<and> filter is_construction (calls (snd (run_script env page a)))
          = filter is_construction (calls a)" if "initialized (session a) \<noteq> None"
  proof -
    from that have "initialize env a = (None, a)" by (rule initialize_again)
    with ia have "r = None" "a' = a" by simp_all
    with rs ks cs show ?thesis by simp
  qed
  from 1 2 3 show ?thesis by blast
qed

lemma run_session_initialized:
  "initialized s \<noteq> None \<Longrightarrow>
     fst (run_session runs s) = s \<and> filter is_construction (snd (run_session runs s)) = []"
proof (induction runs arbitrary: s)
  case Nil
  show ?case by simp
next
  case (Cons r rest)
  obtain env page where r: "r = (env, page)" by (cases r)
  let ?a = "snd (run_script env page (fresh_app s))"
  from run_script_effect[of env page "fresh_app s"] Cons.prems
  have a: "session ?a = s" "filter is_construction (calls ?a) = []"
    by (simp_all add: fresh_app_def)
  from Cons.IH[of s] Cons.prems a r show ?case
    by (simp add: Let_def case_prod_beta)
qed

lemma run_session_constructions:
  "\<exists>n. filter is_construction (snd (run_session runs new_session)) = take n constructions"
proof (cases runs)
  case Nil
  then have "filter is_construction (snd (run_session runs new_session)) = take 0 constructions"
    by simp
  then show ?thesis by blast
next
  case (Cons r rest)
  obtain env page where r: "r = (env, page)" by (cases r)
  let ?a = "snd (run_script env page (fresh_app new_session))"
  from run_script_effect[of env page "fresh_app new_session"] obtain n where
    a: "initialized (session ?a) \<noteq> None" "filter is_construction (calls ?a) = take n constructions"
    by (auto simp: fresh_app_def)
  from run_session_initialized[OF a(1), of rest] a Cons r
  have "filter is_construction (snd (run_session runs new_session)) = take n constructions"
    by (simp add: Let_def case_prod_beta)
  then show ?thesis by blast
qed

lemma count_filter_construction:
  "is_construction c \<Longrightarrow> count_list (filter is_construction cs) c = count_list cs c"
  by (induction cs) auto

lemma count_take_constructions: "count_list (take n constructions) c \<le> 1"
proof -
  have d: "distinct (take n constructions)" by (simp add: constructions_def)
  have "distinct xs \<Longrightarrow> count_list xs c \<le> 1" for xs :: "call list"
    by (induction xs) (auto simp: count_list_0_iff)
  from this[OF d] show ?thesis .
qed

lemma constructed_at_most_once:
  assumes "is_construction c"
  shows "count_list (snd (run_session runs new_session)) c \<le> 1"
proof -
  obtain n where "filter is_construction (snd (run_session runs new_session)) = take n constructions"
    using run_session_constructions by blast
  then have "count_list (snd (run_session runs new_session)) c = count_list (take n constructions) c"
    using count_filter_construction[OF assms] by metis
  then show ?thesis using count_take_constructions [of n c] by simp
qed


text \<open>
  C9: session initialisation is idempotent. On a session without the flag, and with the
  five constructions succeeding, it sets the flag, performs each construction (the
  configuration snapshot and the four service handles) exactly once and stores the
  results; on a session with the flag it calls nothing and changes nothing, so running
  it again after itself is a no-op, and the views leave the session as it is. Over a
  whole session, whatever the pages, the inputs and the outcomes of the constructions,
  the constructions made are an initial part of the five, each made at most once.
\<close>

theorem session_initialized_once:
  "(initialized (session a) = None \<and> get_config env = Inr c \<and> AnalysisService env = Inr s1
      \<and> HistoryService env = Inr s2 \<and> StockService env = Inr s3
      \<and> SystemConfigService env = Inr s4
    \<longrightarrow> initialize env a =
        (None, a\<lparr>session := (session a)\<lparr>initialized := Some True, config := Some c,
                     analysis_service := Some s1, history_service := Some s2,
                     stock_service := Some s3, system_config_service := Some s4\<rparr>,
                  calls := calls a @ constructions\<rparr>))
   \<and> (initialized (session a) \<noteq> None \<longrightarrow> initialize env a = (None, a))
   \<and> initialize env' (snd (initialize env a)) = (None, snd (initialize env a))
   \<and> keeps_session (main env page)
   \<and> (\<exists>n. filter is_construction (snd (run_session runs new_session)) = take n constructions)
   \<and> count_list (snd (run_session runs new_session)) NewConfig \<le> 1
   \<and> count_list (snd (run_session runs new_session)) NewAnalysisService \<le> 1
   \<and> count_list (snd (run_session runs new_session)) NewHistoryService \<le> 1
   \<and> count_list (snd (run_session runs new_session)) NewStockService \<le> 1
   \<and> count_list (snd (run_session runs new_session)) NewSystemConfigService \<le> 1"
proof -
  have again: "initialize env' (snd (initialize env a)) = (None, snd (initialize env a))"
    using initialize_effect [of env a] by (intro initialize_again) simp
  show ?thesis
    using initialize_first [of a env c s1 s2 s3 s4] initialize_again [of a env] again
      keeps_main [of env page] run_session_constructions [of runs]
      constructed_at_most_once [of _ runs]
    by simp
qed

theorem session_initialized_once_witness:
  "initialize sample_env (fresh_app new_session) =
     (None, \<lparr>session = \<lparr>initialized = Some True, config = Some (Config sample_config),
                 analysis_service = Some (\<lambda>args. Inr None),
                 history_service = Some (\<lambda>args. Inr None),
                 stock_service = Some empty_stock_service,
                 system_config_service = Some (\<lambda>include_schema. Inr None)\<rparr>,
             rendered = [], calls = constructions, logged = []\<rparr>)
   \<and> initialize sample_env (fresh_app empty_session) = (None, fresh_app empty_session)
   \<and> snd (run_session [(sample_env, ConfigPage), (sample_env, TaskMonitorPage False)] new_session)
       = constructions @ [GetConfig True, GetTaskQueue, ListTasks 50]"
proof -
  have run: "snd (run_session [(sample_env, ConfigPage), (sample_env, TaskMonitorPage False)] new_session)
       = constructions @ [GetConfig True, GetTaskQueue, ListTasks 50]"
    by (simp add: run_script_def initialize_def construct_def main_def read_config_def
        show_config_page_def config_try_def show_config_data_def
        show_task_monitor_page_def task_try_def show_tasks_def
        stmt_defs fresh_app_def new_session_def sample_env_def constructions_def Let_def)
  show ?thesis
    using session_initialized_once [where a = "fresh_app new_session" and env = sample_env
        and c = "Config sample_config" and ?s1.0 = "\<lambda>args. Inr None" and ?s2.0 = "\<lambda>args. Inr None"
        and ?s3.0 = empty_stock_service and ?s4.0 = "\<lambda>include_schema. Inr None"]
      session_initialized_once [where a = "fresh_app empty_session" and env = sample_env]
      run
    by (simp add: fresh_app_def new_session_def sample_env_def empty_session_def)
qed


subsection \<open>Advice classification\<close>

text \<open>
  The examples of the specification: "advise to buy and sell" (both tokens), "advise to
  sell", "hold and watch".
\<close>

lemma advice_examples:
  "show_advice [24314, 35758, 20080, 20837, 24182, 21334, 20986]
     = Success (bold [24314, 35758, 20080, 20837, 24182, 21334, 20986])"
  "show_advice [24314, 35758, 21334, 20986] = Error (bold [24314, 35758, 21334, 20986])"
  "show_advice [25345, 26377, 35266, 26395] = Warning (bold [25345, 26377, 35266, 26395])"
  by (simp_all add: show_advice_def buy_token_def sell_token_def)

text \<open>
  C4: for every advice text the view shows the success box if the text contains the buy
  token, otherwise the error box if it contains the sell token, otherwise the warning
  box; this is the classifier of the specification (Buy, Sell, Neutral) with the buy check
  first, so a text containing both tokens is classified Buy.
\<close>

theorem show_advice_classifies:
  "marker_of (show_advice t) = Some (class_marker (classifyAdvice_spec t))
   \<and> (classifyAdvice_spec t = Buy \<longleftrightarrow> contains t buy_token)
   \<and> (classifyAdvice_spec t = Sell \<longleftrightarrow> \<not> contains t buy_token \<and> contains t sell_token)
   \<and> (classifyAdvice_spec t = Neutral \<longleftrightarrow> \<not> contains t buy_token \<and> \<not> contains t sell_token)
   \<and> show_advice (pre @ buy_token @ mid @ sell_token @ post)
       = Success (bold (pre @ buy_token @ mid @ sell_token @ post))
   \<and> show_advice (pre @ sell_token @ mid @ buy_token @ post)
       = Success (bold (pre @ sell_token @ mid @ buy_token @ post))"
proof -
  have b1: "contains (pre @ buy_token @ mid @ sell_token @ post) buy_token"
    unfolding contains_def by blast
  have "pre @ sell_token @ mid @ buy_token @ post
        = (pre @ sell_token @ mid) @ buy_token @ post" by simp
  then have b2: "contains (pre @ sell_token @ mid @ buy_token @ post) buy_token"
    unfolding contains_def by blast
  show ?thesis
    using b1 b2 by (simp add: show_advice_def classifyAdvice_spec_def py_in_contains)
qed

end
